theory Spec2Isabelle
  imports Main "HOL-Library.AList"
begin

section \<open>JavaScript values and the lodash helpers the storage module uses\<close>

text \<open>
  The storage module (\<^verbatim>\<open>storage/index.js\<close>) passes plain JavaScript objects to Realm and
  reads Realm objects back. An object is an association list from property names to
  values; a property that is not listed reads as \<^verbatim>\<open>undefined\<close>.
\<close>

datatype jsval =
    JUndefined
  | JBool bool
  | JNum int
  | JStr string
  | JArr "jsval list"
  | JObj "(string \<times> jsval) list"

type_synonym jsobj = "(string \<times> jsval) list"

text \<open>\<^verbatim>\<open>obj.p\<close>\<close>

definition getProp :: "jsobj \<Rightarrow> string \<Rightarrow> jsval" where
  "getProp obj p = (case map_of obj p of None \<Rightarrow> JUndefined | Some v \<Rightarrow> v)"

text \<open>\<^verbatim>\<open>assign(target, source)\<close>: the properties of the source override those of the target.\<close>

definition assign :: "jsobj \<Rightarrow> jsobj \<Rightarrow> jsobj" where
  "assign target source = AList.merge target source"

text \<open>lodash skips a source that is \<^verbatim>\<open>undefined\<close>.\<close>

definition assignOpt :: "jsobj \<Rightarrow> jsobj option \<Rightarrow> jsobj" where
  "assignOpt target source = (case source of None \<Rightarrow> target | Some s \<Rightarrow> assign target s)"

text \<open>\<^verbatim>\<open>size(collection)\<close>: 0 for \<^verbatim>\<open>null\<close> and \<^verbatim>\<open>undefined\<close> (here \<open>None\<close>).\<close>

definition size_of :: "'a list option \<Rightarrow> nat" where
  "size_of xs = (case xs of None \<Rightarrow> 0 | Some ys \<Rightarrow> length ys)"

text \<open>\<^verbatim>\<open>isEmpty(value)\<close> on an object that may be \<^verbatim>\<open>undefined\<close>.\<close>

definition isEmpty :: "jsobj option \<Rightarrow> bool" where
  "isEmpty v = (case v of None \<Rightarrow> True | Some obj \<Rightarrow> obj = [])"

text \<open>\<^verbatim>\<open>includes(collection, value)\<close>; the values compared are primary keys (strings).\<close>

definition includes_val :: "jsval list \<Rightarrow> jsval \<Rightarrow> bool" where
  "includes_val xs v = (v \<in> set xs)"

text \<open>\<^verbatim>\<open>!v\<close>\<close>

fun truthy :: "jsval \<Rightarrow> bool" where
  "truthy JUndefined = False"
| "truthy (JBool b) = b"
| "truthy (JNum n) = (n \<noteq> 0)"
| "truthy (JStr s) = (s \<noteq> [])"
| "truthy (JArr xs) = True"
| "truthy (JObj ps) = True"

definition js_not :: "jsval \<Rightarrow> jsval" where
  "js_not v = JBool (\<not> truthy v)"

section \<open>The Realm store\<close>

text \<open>
  Realm is the library under the module; its documented behaviour is modelled here.
  The store holds one table per object class, each a list of objects in insertion order.
  The write transaction of Realm is explicit: \<open>snapshot\<close> is \<open>None\<close> outside a write
  transaction and holds the tables as they were at \<^verbatim>\<open>beginTransaction\<close> inside one.
  Sub-objects (settings, notifications, addresses, transactions, the error log) are
  values embedded in their owner.
\<close>

datatype cls = Account | Node | Wallet

record tables =
  accounts :: "jsobj list"
  nodes :: "jsobj list"
  wallets :: "jsobj list"

record realm =
  live :: tables
  snapshot :: "tables option"

datatype error =
    TypeError
  | DuplicatePrimaryKey
  | MissingPrimaryKey
  | NotInTransaction
  | AlreadyInTransaction
  | InvalidObject
  | InvalidValue

type_synonym 'a action = "realm \<Rightarrow> realm \<times> (error + 'a)"

fun table :: "cls \<Rightarrow> tables \<Rightarrow> jsobj list" where
  "table Account t = accounts t"
| "table Node t = nodes t"
| "table Wallet t = wallets t"

fun setTable :: "cls \<Rightarrow> jsobj list \<Rightarrow> tables \<Rightarrow> tables" where
  "setTable Account rows t = t\<lparr>accounts := rows\<rparr>"
| "setTable Node rows t = t\<lparr>nodes := rows\<rparr>"
| "setTable Wallet rows t = t\<lparr>wallets := rows\<rparr>"

text \<open>
  Modelled from the spec: the schema declarations (\<^verbatim>\<open>../schema\<close>) are not among the
  sources. The primary key of an account is its name, of a node its URL, of the wallet row
  its schema version; these are the properties \<^verbatim>\<open>Account.update\<close>,
  \<^verbatim>\<open>Node.addCustomNode\<close> and \<^verbatim>\<open>Wallet.createIfNotExists\<close> write.
  The types and defaults of the other properties are left open: a stored object lists the
  properties that were written to it, and values are stored unchecked.
\<close>

fun primaryKey :: "cls \<Rightarrow> string" where
  "primaryKey Account = ''name''"
| "primaryKey Node = ''url''"
| "primaryKey Wallet = ''version''"

definition keyOf :: "cls \<Rightarrow> jsobj \<Rightarrow> jsval" where
  "keyOf c obj = getProp obj (primaryKey c)"

text \<open>
  Modelled from the spec: the type of a primary key, which the missing schema declares.
  The name of an account and the URL of a node are strings, the version of a wallet row is
  an integer.
\<close>

fun keyType :: "cls \<Rightarrow> jsval \<Rightarrow> bool" where
  "keyType Wallet k = (case k of JNum n \<Rightarrow> True | _ \<Rightarrow> False)"
| "keyType c k = (case k of JStr s \<Rightarrow> True | _ \<Rightarrow> False)"

text \<open>\<^verbatim>\<open>realm.objects(type)\<close>\<close>

definition objects :: "cls \<Rightarrow> realm \<Rightarrow> jsobj list" where
  "objects c r = table c (live r)"

text \<open>\<^verbatim>\<open>realm.objectForPrimaryKey(type, id)\<close>: \<^verbatim>\<open>undefined\<close> (here \<open>None\<close>) when no object has the key.\<close>

definition objectForPrimaryKey :: "cls \<Rightarrow> jsval \<Rightarrow> realm \<Rightarrow> jsobj option" where
  "objectForPrimaryKey c k r = find (\<lambda>obj. keyOf c obj = k) (objects c r)"

definition putTable :: "cls \<Rightarrow> jsobj list \<Rightarrow> realm \<Rightarrow> realm" where
  "putTable c rows r = r\<lparr>live := setTable c rows (live r)\<rparr>"

text \<open>
  \<^verbatim>\<open>realm.create(type, properties, update)\<close>: outside a write transaction it throws; an
  object without its primary key is refused; an object whose key is already stored is
  refused unless \<open>update\<close> is set, in which case the given properties are written over
  the stored object, which keeps its place.
\<close>

definition create :: "cls \<Rightarrow> jsobj \<Rightarrow> bool \<Rightarrow> unit action" where
  "create c obj update r =
     (if snapshot r = None then (r, Inl NotInTransaction)
      else if keyOf c obj = JUndefined then (r, Inl MissingPrimaryKey)
      else (case objectForPrimaryKey c (keyOf c obj) r of
              None \<Rightarrow> (putTable c (objects c r @ [obj]) r, Inr ())
            | Some old \<Rightarrow>
                if update
                then (putTable c (map (\<lambda>row. if keyOf c row = keyOf c obj then assign row obj else row)
                                    (objects c r)) r, Inr ())
                else (r, Inl DuplicatePrimaryKey)))"

text \<open>\<^verbatim>\<open>realm.delete(object)\<close>; the argument is a stored object or \<^verbatim>\<open>undefined\<close>.\<close>

definition delete :: "cls \<Rightarrow> jsobj option \<Rightarrow> unit action" where
  "delete c target r =
     (if snapshot r = None then (r, Inl NotInTransaction)
      else (case target of
              None \<Rightarrow> (r, Inl InvalidObject)
            | Some obj \<Rightarrow> (putTable c (filter (\<lambda>row. keyOf c row \<noteq> keyOf c obj) (objects c r)) r, Inr ())))"

text \<open>\<^verbatim>\<open>realm.deleteAll()\<close>\<close>

definition deleteAll :: "unit action" where
  "deleteAll r =
     (if snapshot r = None then (r, Inl NotInTransaction)
      else (r\<lparr>live := \<lparr>accounts = [], nodes = [], wallets = []\<rparr>\<rparr>, Inr ()))"

text \<open>The store with property \<open>p\<close> of the object with key \<open>k\<close> set to \<open>v\<close>, inside a transaction.\<close>

definition storeField :: "cls \<Rightarrow> jsval \<Rightarrow> string \<Rightarrow> jsval \<Rightarrow> unit action" where
  "storeField c k p v r =
     (if snapshot r = None then (r, Inl NotInTransaction)
      else (putTable c (map (\<lambda>row. if keyOf c row = k then AList.update p v row else row)
                          (objects c r)) r, Inr ()))"

text \<open>
  The property types of Realm. An \<^verbatim>\<open>int\<close> is a 64-bit integer. Numbers are modelled as
  integers, so a \<^verbatim>\<open>double\<close> property takes every number of the model. A property that is
  not optional takes no \<^verbatim>\<open>undefined\<close>.
\<close>

datatype jstype = TBool | TInt | TDouble | TString | TList jstype | TOptional jstype

fun hasType :: "jstype \<Rightarrow> jsval \<Rightarrow> bool" where
  "hasType TBool v = (case v of JBool b \<Rightarrow> True | _ \<Rightarrow> False)"
| "hasType TInt v = (case v of JNum n \<Rightarrow> - (2 ^ 63) \<le> n \<and> n < 2 ^ 63 | _ \<Rightarrow> False)"
| "hasType TDouble v = (case v of JNum n \<Rightarrow> True | _ \<Rightarrow> False)"
| "hasType TString v = (case v of JStr s \<Rightarrow> True | _ \<Rightarrow> False)"
| "hasType (TList t) v = (case v of JArr xs \<Rightarrow> list_all (hasType t) xs | _ \<Rightarrow> False)"
| "hasType (TOptional t) v = (v = JUndefined \<or> hasType t v)"

text \<open>
  The schema declarations (\<^verbatim>\<open>../schema\<close>) are not among the sources. The property types
  they give the classes \<^verbatim>\<open>Wallet\<close>, \<^verbatim>\<open>WalletSettings\<close> and \<^verbatim>\<open>NotificationsSettings\<close>, which
  the module registers with Realm, are a parameter of the setters.
\<close>

type_synonym props = "(string \<times> jstype) list"

record schema =
  walletProps :: props
  settingsProps :: props
  notificationsProps :: props

text \<open>
  Assignment to a property of a stored object, \<^verbatim>\<open>object.p = v\<close>, for an object of a class
  with the declared properties \<open>ps\<close>. A property the class does not declare is an ordinary
  JavaScript property of the object: nothing is stored and nothing is raised. A value that
  is not of the declared type is refused. Otherwise the store is updated by \<open>store\<close>.
\<close>

definition setObjectProp :: "props \<Rightarrow> string \<Rightarrow> jsval \<Rightarrow> unit action \<Rightarrow> unit action" where
  "setObjectProp ps p v store r =
     (case map_of ps p of
        None \<Rightarrow> (r, Inr ())
      | Some t \<Rightarrow> if hasType t v then store r else (r, Inl InvalidValue))"

definition beginTransaction :: "realm \<Rightarrow> realm" where
  "beginTransaction r = r\<lparr>snapshot := Some (live r)\<rparr>"

definition commitTransaction :: "realm \<Rightarrow> realm" where
  "commitTransaction r = r\<lparr>snapshot := None\<rparr>"

definition cancelTransaction :: "realm \<Rightarrow> realm" where
  "cancelTransaction r =
     (case snapshot r of None \<Rightarrow> r | Some t \<Rightarrow> r\<lparr>live := t, snapshot := None\<rparr>)"

text \<open>
  \<^verbatim>\<open>realm.write(callback)\<close>: begins a transaction, runs the callback, commits; when the
  callback throws, the transaction is cancelled and the exception is thrown again.
  A write inside a write throws.
\<close>

definition realm_write :: "'a action \<Rightarrow> unit action" where
  "realm_write callback r =
     (if snapshot r \<noteq> None then (r, Inl AlreadyInTransaction)
      else (case callback (beginTransaction r) of
              (r', Inl e) \<Rightarrow> (cancelTransaction r', Inl e)
            | (r', Inr v) \<Rightarrow> (commitTransaction r', Inr ())))"

text \<open>Two statements in sequence: an exception in the first skips the second.\<close>

definition andThen :: "'a action \<Rightarrow> 'b action \<Rightarrow> 'b action" where
  "andThen m n r = (case m r of (r', Inl e) \<Rightarrow> (r', Inl e) | (r', Inr v) \<Rightarrow> n r')"

text \<open>\<^verbatim>\<open>each(collection, iteratee)\<close>; an exception in the iteratee ends the loop.\<close>

fun each :: "'a list \<Rightarrow> ('a \<Rightarrow> unit action) \<Rightarrow> unit action" where
  "each [] f r = (r, Inr ())"
| "each (x # xs) f r = (case f x r of (r', Inl e) \<Rightarrow> (r', Inl e) | (r', Inr v) \<Rightarrow> each xs f r')"

section \<open>Model for Account\<close>

definition SCHEMA_VERSION :: int where
  "SCHEMA_VERSION = 0"

definition Account_getObjectForId :: "jsval \<Rightarrow> realm \<Rightarrow> jsobj option" where
  "Account_getObjectForId ident r = objectForPrimaryKey Account ident r"

definition Account_data :: "realm \<Rightarrow> jsobj list" where
  "Account_data r = objects Account r"

definition Account_create :: "jsobj \<Rightarrow> unit action" where
  "Account_create data = realm_write (create Account data False)"

definition Account_update :: "string \<Rightarrow> jsobj \<Rightarrow> unit action" where
  "Account_update name data = realm_write (create Account (assign [(''name'', JStr name)] data) True)"

definition Account_delete :: "string \<Rightarrow> unit action" where
  "Account_delete name = realm_write (\<lambda>r. delete Account (Account_getObjectForId (JStr name) r) r)"

text \<open>
  \<^verbatim>\<open>
  static migrate(from, to) {
      const accountData = Account.getObjectForId(from);
      realm.write(() => {
          realm.create('Account', assign({}, accountData, { accountName: to }));
          realm.delete(accountData);
      });
  }
  \<close>
\<close>

definition Account_migrate :: "string \<Rightarrow> string \<Rightarrow> unit action" where
  "Account_migrate from to r =
     (let accountData = Account_getObjectForId (JStr from) r in
      realm_write (andThen
               (create Account (assign (assignOpt [] accountData) [(''accountName'', JStr to)]) False)
               (delete Account accountData)) r)"

section \<open>Model for Node\<close>

definition Node_getObjectForId :: "jsval \<Rightarrow> realm \<Rightarrow> jsobj option" where
  "Node_getObjectForId ident r = objectForPrimaryKey Node ident r"

definition Node_data :: "realm \<Rightarrow> jsobj list" where
  "Node_data r = objects Node r"

definition Node_getDataAsArray :: "realm \<Rightarrow> jsobj list" where
  "Node_getDataAsArray r = map (\<lambda>node. assign [] node) (Node_data r)"

definition Node_addCustomNode :: "string \<Rightarrow> jsval \<Rightarrow> unit action" where
  "Node_addCustomNode url pow =
     realm_write (create Node [(''url'', JStr url), (''custom'', JBool True), (''pow'', pow)] False)"

definition Node_delete :: "string \<Rightarrow> unit action" where
  "Node_delete url r =
     (let node = Node_getObjectForId (JStr url) r in realm_write (delete Node node) r)"

text \<open>
  The iteratee of \<^verbatim>\<open>addNodes\<close>:
  \<^verbatim>\<open>
  if (includes(existingUrls, node.url)) { realm.create('Node', node, true); }
  else { realm.create('Node', node); }
  \<close>
\<close>

definition addNodesStep :: "jsval list \<Rightarrow> jsobj \<Rightarrow> unit action" where
  "addNodesStep existingUrls node =
     (if includes_val existingUrls (getProp node ''url'')
      then create Node node True
      else create Node node False)"

definition Node_addNodes :: "jsobj list option \<Rightarrow> unit action" where
  "Node_addNodes nodeList r =
     (if size_of nodeList \<noteq> 0
      then (let existingUrls = map (\<lambda>node. getProp node ''url'') (Node_getDataAsArray r) in
            realm_write (each (case nodeList of None \<Rightarrow> [] | Some ns \<Rightarrow> ns) (addNodesStep existingUrls)) r)
      else (r, Inr ()))"

section \<open>Model for wallet data and settings\<close>

definition Wallet_version :: int where
  "Wallet_version = SCHEMA_VERSION"

text \<open>
  \<^verbatim>\<open>getObjectForId(id = Wallet.version)\<close>: \<open>None\<close> is the call without an argument. The
  default also stands in for an argument that is \<^verbatim>\<open>undefined\<close>.
\<close>

definition Wallet_getObjectForId :: "jsval option \<Rightarrow> realm \<Rightarrow> jsobj option" where
  "Wallet_getObjectForId ident r =
     objectForPrimaryKey Wallet
       (case ident of
          None \<Rightarrow> JNum Wallet_version
        | Some i \<Rightarrow> if i = JUndefined then JNum Wallet_version else i) r"

definition Wallet_data :: "realm \<Rightarrow> jsobj list" where
  "Wallet_data r = objects Wallet r"

text \<open>
  \<^verbatim>\<open>
  static get latestSettings() {
      const dataForCurrentVersion = Wallet.getObjectForId();
      return dataForCurrentVersion.settings;
  }
  \<close>
  Reading a property of \<^verbatim>\<open>undefined\<close> throws a TypeError.
\<close>

definition Wallet_latestSettings :: "realm \<Rightarrow> error + jsval" where
  "Wallet_latestSettings r =
     (case Wallet_getObjectForId None r of
        None \<Rightarrow> Inl TypeError
      | Some dataForCurrentVersion \<Rightarrow> Inr (getProp dataForCurrentVersion ''settings''))"

definition Wallet_latestData :: "realm \<Rightarrow> jsobj option" where
  "Wallet_latestData r = Wallet_getObjectForId None r"

text \<open>The statement \<^verbatim>\<open>Wallet.latestData.p = v\<close>.\<close>

definition assignData :: "schema \<Rightarrow> string \<Rightarrow> jsval \<Rightarrow> unit action" where
  "assignData sch p v r =
     (case Wallet_latestData r of
        None \<Rightarrow> (r, Inl TypeError)
      | Some d \<Rightarrow> setObjectProp (walletProps sch) p v (storeField Wallet (keyOf Wallet d) p v) r)"

text \<open>
  The statement \<^verbatim>\<open>Wallet.latestSettings.p = v\<close>. The settings object belongs to the row
  of the current version; a row whose settings are not an object makes the assignment a
  TypeError.
\<close>

definition assignSetting :: "schema \<Rightarrow> string \<Rightarrow> jsval \<Rightarrow> unit action" where
  "assignSetting sch p v r =
     (case Wallet_latestSettings r of
        Inl e \<Rightarrow> (r, Inl e)
      | Inr settings \<Rightarrow>
          (case settings of
             JObj st \<Rightarrow>
               setObjectProp (settingsProps sch) p v
                 (storeField Wallet (JNum Wallet_version) ''settings'' (JObj (AList.update p v st))) r
           | _ \<Rightarrow> (r, Inl TypeError)))"

text \<open>
  The statement \<^verbatim>\<open>Wallet.latestSettings.notifications[type] = enabled\<close>. The notification
  settings are an object of the class \<^verbatim>\<open>NotificationsSettings\<close>.
\<close>

definition assignNotification :: "schema \<Rightarrow> string \<Rightarrow> jsval \<Rightarrow> unit action" where
  "assignNotification sch type enabled r =
     (case Wallet_latestSettings r of
        Inl e \<Rightarrow> (r, Inl e)
      | Inr settings \<Rightarrow>
          (case settings of
             JObj st \<Rightarrow>
               (case getProp st ''notifications'' of
                  JObj nt \<Rightarrow>
                    setObjectProp (notificationsProps sch) type enabled
                      (storeField Wallet (JNum Wallet_version) ''settings''
                         (JObj (AList.update ''notifications''
                                  (JObj (AList.update type enabled nt)) st))) r
                | _ \<Rightarrow> (r, Inl TypeError))
           | _ \<Rightarrow> (r, Inl TypeError)))"

definition Wallet_setOnboardingComplete :: "schema \<Rightarrow> unit action" where
  "Wallet_setOnboardingComplete sch =
     realm_write (assignData sch ''onboardingComplete'' (JBool True))"

definition Wallet_updateRemotePowSetting :: "schema \<Rightarrow> bool \<Rightarrow> unit action" where
  "Wallet_updateRemotePowSetting sch payload =
     realm_write (assignSetting sch ''remotePoW'' (JBool payload))"

definition Wallet_updateAutoPromotionSetting :: "schema \<Rightarrow> bool \<Rightarrow> unit action" where
  "Wallet_updateAutoPromotionSetting sch payload =
     realm_write (assignSetting sch ''autoPromotion'' (JBool payload))"

definition Wallet_updateAutoNodeSwitchingSetting :: "schema \<Rightarrow> bool \<Rightarrow> unit action" where
  "Wallet_updateAutoNodeSwitchingSetting sch payload =
     realm_write (assignSetting sch ''autoNodeSwitching'' (JBool payload))"

definition Wallet_updateLockScreenTimeout :: "schema \<Rightarrow> int \<Rightarrow> unit action" where
  "Wallet_updateLockScreenTimeout sch payload =
     realm_write (assignSetting sch ''lockScreenTimeout'' (JNum payload))"

definition Wallet_updateLocale :: "schema \<Rightarrow> string \<Rightarrow> unit action" where
  "Wallet_updateLocale sch payload =
     realm_write (assignSetting sch ''locale'' (JStr payload))"

definition Wallet_updateMode :: "schema \<Rightarrow> string \<Rightarrow> unit action" where
  "Wallet_updateMode sch payload =
     realm_write (assignSetting sch ''mode'' (JStr payload))"

definition Wallet_updateNode :: "schema \<Rightarrow> string \<Rightarrow> unit action" where
  "Wallet_updateNode sch payload =
     realm_write (assignSetting sch ''node'' (JStr payload))"

definition Wallet_updateLanguage :: "schema \<Rightarrow> string \<Rightarrow> unit action" where
  "Wallet_updateLanguage sch payload =
     realm_write (assignSetting sch ''language'' (JStr payload))"

text \<open>
  \<^verbatim>\<open>
  const { conversionRate, currency, availableCurrencies } = payload;
  realm.write(() => {
      Wallet.latestSettings.currency = currency;
      Wallet.latestSettings.conversionRate = conversionRate;
      Wallet.latestSettings.availableCurrencies = availableCurrencies;
  });
  \<close>
\<close>

definition Wallet_updateCurrencyData :: "schema \<Rightarrow> jsobj \<Rightarrow> unit action" where
  "Wallet_updateCurrencyData sch payload =
     (let conversionRate = getProp payload ''conversionRate'';
          currency = getProp payload ''currency'';
          availableCurrencies = getProp payload ''availableCurrencies''
      in realm_write
           (andThen (assignSetting sch ''currency'' currency)
              (andThen (assignSetting sch ''conversionRate'' conversionRate)
                 (assignSetting sch ''availableCurrencies'' availableCurrencies))))"

definition Wallet_updateTheme :: "schema \<Rightarrow> string \<Rightarrow> unit action" where
  "Wallet_updateTheme sch payload =
     realm_write (assignSetting sch ''themeName'' (JStr payload))"

definition Wallet_setRandomlySelectedNode :: "schema \<Rightarrow> string \<Rightarrow> unit action" where
  "Wallet_setRandomlySelectedNode sch payload =
     realm_write
       (andThen (assignSetting sch ''node'' (JStr payload))
          (assignSetting sch ''hasRandomizedNode'' (JBool True)))"

definition Wallet_update2FASetting :: "schema \<Rightarrow> bool \<Rightarrow> unit action" where
  "Wallet_update2FASetting sch payload =
     realm_write (assignSetting sch ''is2FAEnabled'' (JBool payload))"

definition Wallet_updateFingerPrintAuthenticationSetting :: "schema \<Rightarrow> bool \<Rightarrow> unit action" where
  "Wallet_updateFingerPrintAuthenticationSetting sch payload =
     realm_write (assignSetting sch ''isFingerprintEnabled'' (JBool payload))"

definition Wallet_setVersions :: "schema \<Rightarrow> jsobj \<Rightarrow> unit action" where
  "Wallet_setVersions sch payload =
     (let buildNumber = getProp payload ''buildNumber'';
          version = getProp payload ''version''
      in realm_write
           (andThen (assignSetting sch ''buildNumber'' buildNumber)
              (assignSetting sch ''version'' version)))"

definition Wallet_acceptTerms :: "schema \<Rightarrow> unit action" where
  "Wallet_acceptTerms sch = realm_write (assignSetting sch ''acceptedTerms'' (JBool True))"

definition Wallet_acceptPrivacyPolicy :: "schema \<Rightarrow> unit action" where
  "Wallet_acceptPrivacyPolicy sch = realm_write (assignSetting sch ''acceptedPrivacy'' (JBool True))"

text \<open>
  \<^verbatim>\<open>
  realm.write(() => {
      const settings = Wallet.latestSettings;
      settings.hideEmptyTransactions = !settings.hideEmptyTransactions;
  });
  \<close>
  A setting that was never written reads as the default of the schema, which is the
  parameter \<open>dflt\<close>.
\<close>

definition Wallet_toggleEmptyTransactionsDisplay :: "schema \<Rightarrow> jsval \<Rightarrow> unit action" where
  "Wallet_toggleEmptyTransactionsDisplay sch dflt =
     realm_write (\<lambda>r.
       case Wallet_latestSettings r of
         Inl e \<Rightarrow> (r, Inl e)
       | Inr settings \<Rightarrow>
           (case settings of
              JObj st \<Rightarrow>
                assignSetting sch ''hideEmptyTransactions''
                  (js_not (case map_of st ''hideEmptyTransactions'' of None \<Rightarrow> dflt | Some v \<Rightarrow> v)) r
            | _ \<Rightarrow> (r, Inl TypeError)))"

definition Wallet_completeForcedPasswordUpdate :: "schema \<Rightarrow> unit action" where
  "Wallet_completeForcedPasswordUpdate sch = realm_write (assignSetting sch ''completedForcedPasswordUpdate'' (JBool True))"

definition Wallet_updateByteTritSweepSetting :: "schema \<Rightarrow> bool \<Rightarrow> unit action" where
  "Wallet_updateByteTritSweepSetting sch payload =
     realm_write (assignSetting sch ''completedByteTritSweep'' (JBool payload))"

definition Wallet_updateTraySetting :: "schema \<Rightarrow> bool \<Rightarrow> unit action" where
  "Wallet_updateTraySetting sch payload =
     realm_write (assignSetting sch ''isTrayEnabled'' (JBool payload))"

text \<open>\<^verbatim>\<open>const { type, enabled } = payload;\<close> are the two parameters.\<close>

definition Wallet_updateNotificationsSetting :: "schema \<Rightarrow> string \<Rightarrow> jsval \<Rightarrow> unit action" where
  "Wallet_updateNotificationsSetting sch type enabled =
     realm_write (assignNotification sch type enabled)"

text \<open>
  Reading the list property \<^verbatim>\<open>errorLog\<close> of a wallet row. Realm gives a list property that
  was never written the empty list; \<open>None\<close> is a value that is not a list.
\<close>

definition errorLogOf :: "jsobj \<Rightarrow> jsval list option" where
  "errorLogOf d =
     (case map_of d ''errorLog'' of
        None \<Rightarrow> Some []
      | Some log \<Rightarrow> (case log of JArr xs \<Rightarrow> Some xs | _ \<Rightarrow> None))"

text \<open>
  The statement \<^verbatim>\<open>Wallet.latestData.errorLog.push(payload)\<close>. Only a list has \<^verbatim>\<open>push\<close>;
  the list refuses an element that is not of its element type.
\<close>

definition pushErrorLog :: "schema \<Rightarrow> jsval \<Rightarrow> unit action" where
  "pushErrorLog sch payload r =
     (case Wallet_latestData r of
        None \<Rightarrow> (r, Inl TypeError)
      | Some d \<Rightarrow>
          (case map_of (walletProps sch) ''errorLog'' of
             Some (TList t) \<Rightarrow>
               (if hasType t payload
                then (case errorLogOf d of
                        None \<Rightarrow> (r, Inl TypeError)
                      | Some xs \<Rightarrow>
                          storeField Wallet (keyOf Wallet d) ''errorLog'' (JArr (xs @ [payload])) r)
                else (r, Inl InvalidValue))
           | _ \<Rightarrow> (r, Inl TypeError)))"

definition Wallet_updateErrorLog :: "schema \<Rightarrow> string \<Rightarrow> unit action" where
  "Wallet_updateErrorLog sch payload = realm_write (pushErrorLog sch (JStr payload))"

definition Wallet_clearErrorLog :: "schema \<Rightarrow> unit action" where
  "Wallet_clearErrorLog sch = realm_write (assignData sch ''errorLog'' (JArr []))"

text \<open>
  \<^verbatim>\<open>
  static createIfNotExists() {
      const shouldCreate = isEmpty(Wallet.getObjectForId());
      if (shouldCreate) {
          realm.write(() =>
              realm.create('Wallet', { version: Wallet.version, settings: { notifications: {} } }));
      }
  }
  \<close>
\<close>

definition freshWallet :: jsobj where
  "freshWallet =
     [(''version'', JNum Wallet_version), (''settings'', JObj [(''notifications'', JObj [])])]"

definition Wallet_createIfNotExists :: "unit action" where
  "Wallet_createIfNotExists r =
     (let shouldCreate = isEmpty (Wallet_getObjectForId None r) in
      if shouldCreate then realm_write (create Wallet freshWallet False) r else (r, Inr ()))"

section \<open>Lifecycle\<close>

text \<open>
  \<^verbatim>\<open>new Promise((resolve, reject) => { try { body; resolve(); } catch (error) { reject(error); } })\<close>:
  the promise is rejected with the exception of the body (\<open>Inl\<close>) or resolved (\<open>Inr\<close>).
\<close>

definition promise :: "'a action \<Rightarrow> unit action" where
  "promise body r = (case body r of (r', Inl e) \<Rightarrow> (r', Inl e) | (r', Inr v) \<Rightarrow> (r', Inr ()))"

definition purge :: "unit action" where
  "purge = promise (realm_write deleteAll)"

definition initialise :: "unit action" where
  "initialise = promise Wallet_createIfNotExists"

text \<open>\<^verbatim>\<open>purge().then(() => initialise())\<close>: a rejected purge skips the callback.\<close>

definition reinitialise :: "unit action" where
  "reinitialise = andThen purge initialise"

section \<open>Notions used in the properties\<close>

text \<open>
  A callback that leaves the transaction marker alone: it neither begins nor ends a
  transaction itself. Every callback the module passes to \<^verbatim>\<open>realm.write\<close> is one.
\<close>

definition keepsSnapshot :: "'a action \<Rightarrow> bool" where
  "keepsSnapshot f \<longleftrightarrow> (\<forall>r. snapshot (fst (f r)) = snapshot r)"

text \<open>Primary keys are unique within a table; Realm maintains this for every class.\<close>

definition keysDistinct :: "cls \<Rightarrow> realm \<Rightarrow> bool" where
  "keysDistinct c r \<longleftrightarrow> distinct (map (keyOf c) (objects c r))"

text \<open>The URLs of the stored nodes, as \<^verbatim>\<open>addNodes\<close> computes them before it writes.\<close>

definition storedUrls :: "realm \<Rightarrow> jsval list" where
  "storedUrls r = map (\<lambda>node. getProp node ''url'') (Node_getDataAsArray r)"

text \<open>
  What \<^verbatim>\<open>addNodes\<close> makes of a stored node: the input nodes with its URL are written over it
  in the order of the list. \<open>E\<close> is the list of URLs stored before the call.
\<close>

definition upserted :: "jsval list \<Rightarrow> jsobj list \<Rightarrow> jsobj \<Rightarrow> jsobj" where
  "upserted E ns row =
     (if keyOf Node row \<in> set E
      then foldl assign row (filter (\<lambda>n. keyOf Node n = keyOf Node row) ns) else row)"

text \<open>The input nodes whose URL was not stored before the call.\<close>

definition freshNodes :: "jsval list \<Rightarrow> jsobj list \<Rightarrow> jsobj list" where
  "freshNodes E ns = filter (\<lambda>n. keyOf Node n \<notin> set E) ns"

subsection \<open>Example stores\<close>

definition emptyRealm :: realm where
  "emptyRealm = \<lparr>live = \<lparr>accounts = [], nodes = [], wallets = []\<rparr>, snapshot = None\<rparr>"

definition aliceAccount :: jsobj where
  "aliceAccount =
     [(''name'', JStr ''alice''), (''addressData'', JArr [JStr ''A1'']), (''transactions'', JArr [])]"

definition aliceRealm :: realm where
  "aliceRealm = \<lparr>live = \<lparr>accounts = [aliceAccount], nodes = [], wallets = []\<rparr>, snapshot = None\<rparr>"

definition nodeA :: jsobj where
  "nodeA = [(''url'', JStr ''a''), (''custom'', JBool True)]"

definition nodeB :: jsobj where
  "nodeB = [(''url'', JStr ''b''), (''custom'', JBool False)]"

definition storedA :: jsobj where
  "storedA = [(''url'', JStr ''a''), (''custom'', JBool False), (''pow'', JBool False)]"

definition nodeRealm :: realm where
  "nodeRealm = \<lparr>live = \<lparr>accounts = [], nodes = [storedA], wallets = []\<rparr>, snapshot = None\<rparr>"

definition busyRealm :: realm where
  "busyRealm =
     \<lparr>live = \<lparr>accounts = [aliceAccount],
               nodes = [storedA, nodeB],
               wallets = [[(''version'', JNum 0), (''settings'', JObj [(''locale'', JStr ''de'')]),
                           (''errorLog'', JArr [JStr ''boom''])]]\<rparr>,
      snapshot = None\<rparr>"

definition walletRealm :: realm where
  "walletRealm =
     \<lparr>live = \<lparr>accounts = [aliceAccount], nodes = [storedA],
               wallets = [[(''version'', JNum 0),
                           (''settings'', JObj [(''notifications'', JObj [])])]]\<rparr>,
      snapshot = None\<rparr>"

text \<open>
  An example of a schema. Each setting has the type its setter documents for its payload;
  the currency data, the versions and the three notification settings are examples.
\<close>

definition exampleSchema :: schema where
  "exampleSchema =
     \<lparr>walletProps =
        [(''version'', TInt), (''onboardingComplete'', TBool), (''errorLog'', TList TString)],
      settingsProps =
        [(''remotePoW'', TBool), (''autoPromotion'', TBool), (''autoNodeSwitching'', TBool),
         (''lockScreenTimeout'', TInt), (''locale'', TString), (''mode'', TString),
         (''node'', TString), (''language'', TString), (''currency'', TString),
         (''conversionRate'', TDouble), (''availableCurrencies'', TList TString),
         (''themeName'', TString), (''hasRandomizedNode'', TBool), (''is2FAEnabled'', TBool),
         (''isFingerprintEnabled'', TBool), (''buildNumber'', TOptional TInt),
         (''version'', TString), (''acceptedTerms'', TBool), (''acceptedPrivacy'', TBool),
         (''hideEmptyTransactions'', TBool), (''completedForcedPasswordUpdate'', TBool),
         (''completedByteTritSweep'', TBool), (''isTrayEnabled'', TBool)],
      notificationsProps =
        [(''general'', TBool), (''confirmations'', TBool), (''messages'', TBool)]\<rparr>"

definition usedWallet :: jsobj where
  "usedWallet =
     [(''version'', JNum 0),
      (''settings'', JObj [(''notifications'', JObj [(''general'', JBool False)]),
                           (''hideEmptyTransactions'', JBool True)]),
      (''errorLog'', JArr [JStr ''boom''])]"

definition usedRealm :: realm where
  "usedRealm =
     \<lparr>live = \<lparr>accounts = [aliceAccount], nodes = [storedA], wallets = [usedWallet]\<rparr>,
      snapshot = None\<rparr>"

subsection \<open>The frame and the outcome of a wallet setter\<close>

text \<open>A field of the wallet row of the current version, and a field of its settings.\<close>

definition walletField :: "realm \<Rightarrow> string \<Rightarrow> jsval" where
  "walletField r q = (case Wallet_latestData r of None \<Rightarrow> JUndefined | Some w \<Rightarrow> getProp w q)"

definition settingsField :: "realm \<Rightarrow> string \<Rightarrow> jsval" where
  "settingsField r q = (case walletField r ''settings'' of JObj st \<Rightarrow> getProp st q | _ \<Rightarrow> JUndefined)"

text \<open>
  \<open>dataFrame p r r'\<close>: the store \<open>r'\<close> differs from \<open>r\<close> at most in field \<open>p\<close> of the wallet
  row of the current version. Accounts, nodes, the wallet rows of other versions, the
  primary keys and the transaction marker are the same.
\<close>

definition dataFrame :: "string \<Rightarrow> realm \<Rightarrow> realm \<Rightarrow> bool" where
  "dataFrame p r r' \<longleftrightarrow>
     snapshot r' = snapshot r
     \<and> Account_data r' = Account_data r
     \<and> Node_data r' = Node_data r
     \<and> map (keyOf Wallet) (Wallet_data r') = map (keyOf Wallet) (Wallet_data r)
     \<and> (\<forall>n. n \<noteq> Wallet_version \<longrightarrow>
            Wallet_getObjectForId (Some (JNum n)) r' = Wallet_getObjectForId (Some (JNum n)) r)
     \<and> (\<forall>q. q \<noteq> p \<longrightarrow> walletField r' q = walletField r q)"

text \<open>
  A setter that succeeded in writing: it returns normally, each field it names holds its
  value, and nothing else has changed. For the settings the fields are those of the
  settings object; an empty list of fields says that nothing at all has changed.
\<close>

definition setsData :: "string \<Rightarrow> jsval \<Rightarrow> realm \<Rightarrow> realm \<times> (error + unit) \<Rightarrow> bool" where
  "setsData p v r res \<longleftrightarrow>
     snd res = Inr () \<and> dataFrame p r (fst res) \<and> walletField (fst res) p = v"

definition setsSettings :: "(string \<times> jsval) list \<Rightarrow> realm \<Rightarrow> realm \<times> (error + unit) \<Rightarrow> bool" where
  "setsSettings pvs r res \<longleftrightarrow>
     snd res = Inr ()
     \<and> dataFrame ''settings'' r (fst res)
     \<and> (\<forall>q. q \<notin> fst ` set pvs \<longrightarrow> settingsField (fst res) q = settingsField r q)
     \<and> (\<forall>(p, v)\<in>set pvs. settingsField (fst res) p = v)"

text \<open>What the schema makes of a value for a property: the class declares the property or
  not, and a declared property refuses the values that are not of its type.\<close>

definition declared :: "props \<Rightarrow> string \<Rightarrow> bool" where
  "declared ps p \<longleftrightarrow> map_of ps p \<noteq> None"

definition refused :: "props \<Rightarrow> string \<times> jsval \<Rightarrow> bool" where
  "refused ps pv = (case map_of ps (fst pv) of None \<Rightarrow> False | Some t \<Rightarrow> \<not> hasType t (snd pv))"

text \<open>
  The outcome of a setter that assigns the settings \<open>pvs\<close> in one write scope. If the schema
  refuses one of the values, the setter raises and the store is as before. Otherwise it
  returns normally, the declared settings among \<open>pvs\<close> hold the given values, and nothing
  else has changed.
\<close>

definition settingsOutcome ::
  "schema \<Rightarrow> (string \<times> jsval) list \<Rightarrow> realm \<Rightarrow> realm \<times> (error + unit) \<Rightarrow> bool" where
  "settingsOutcome sch pvs r res \<longleftrightarrow>
     (if list_ex (refused (settingsProps sch)) pvs then res = (r, Inl InvalidValue)
      else setsSettings (filter (\<lambda>pv. declared (settingsProps sch) (fst pv)) pvs) r res)"

text \<open>The same for an assignment to a field of the wallet row itself.\<close>

definition dataOutcome ::
  "schema \<Rightarrow> string \<Rightarrow> jsval \<Rightarrow> realm \<Rightarrow> realm \<times> (error + unit) \<Rightarrow> bool" where
  "dataOutcome sch p v r res \<longleftrightarrow>
     (case map_of (walletProps sch) p of
        None \<Rightarrow> res = (r, Inr ())
      | Some t \<Rightarrow> if hasType t v then setsData p v r res else res = (r, Inl InvalidValue))"

text \<open>
  The same for one entry of the notification settings, \<open>nt\<close> being the notification
  settings before the call.
\<close>

definition notificationOutcome ::
  "schema \<Rightarrow> string \<Rightarrow> jsval \<Rightarrow> jsobj \<Rightarrow> realm \<Rightarrow> realm \<times> (error + unit) \<Rightarrow> bool" where
  "notificationOutcome sch type enabled nt r res \<longleftrightarrow>
     (case map_of (notificationsProps sch) type of
        None \<Rightarrow> res = (r, Inr ())
      | Some t \<Rightarrow>
          if hasType t enabled
          then setsSettings [(''notifications'', JObj (AList.update type enabled nt))] r res
          else res = (r, Inl InvalidValue))"

text \<open>The store with field \<open>p\<close> of the wallet row of the current version set to \<open>v\<close>.\<close>

definition withData :: "string \<Rightarrow> jsval \<Rightarrow> realm \<Rightarrow> realm" where
  "withData p v r =
     putTable Wallet (map (\<lambda>row. if keyOf Wallet row = JNum Wallet_version
                                 then AList.update p v row else row) (objects Wallet r)) r"

text \<open>The settings after the assignments \<open>pvs\<close> that the schema declares, in their order.\<close>

definition settingsAfter :: "props \<Rightarrow> (string \<times> jsval) list \<Rightarrow> jsobj \<Rightarrow> jsobj" where
  "settingsAfter ps pvs st =
     foldl (\<lambda>acc pv. AList.update (fst pv) (snd pv) acc) st (filter (\<lambda>pv. declared ps (fst pv)) pvs)"

text \<open>A sequence of assignments to settings, as the setters with several statements have it.\<close>

fun assignAll :: "schema \<Rightarrow> (string \<times> jsval) list \<Rightarrow> unit action" where
  "assignAll sch [] = (\<lambda>r. (r, Inr ()))"
| "assignAll sch (pv # pvs) = andThen (assignSetting sch (fst pv) (snd pv)) (assignAll sch pvs)"

section \<open>Basic facts about objects and the store\<close>

lemma getProp_update: "getProp (AList.update p v obj) q = (if q = p then v else getProp obj q)"
  by (simp add: getProp_def update_conv')

lemma getProp_assign:
  "getProp (assign a b) p = (case map_of b p of None \<Rightarrow> getProp a p | Some v \<Rightarrow> v)"
  by (simp add: getProp_def assign_def merge_conv' map_add_def split: option.splits)

lemma getProp_defined: "getProp obj p \<noteq> JUndefined \<Longrightarrow> map_of obj p = Some (getProp obj p)"
  by (auto simp: getProp_def split: option.splits)

lemma keyOf_assign: "keyOf c obj \<noteq> JUndefined \<Longrightarrow> keyOf c (assign row obj) = keyOf c obj"
  by (simp add: keyOf_def getProp_assign getProp_defined)

lemma snapshot_putTable: "snapshot (putTable c rows r) = snapshot r"
  by (simp add: putTable_def)

lemma objects_putTable: "objects c' (putTable c rows r) = (if c' = c then rows else objects c' r)"
  by (cases c; cases c'; simp add: objects_def putTable_def)

lemma objects_beginTransaction: "objects c (beginTransaction r) = objects c r"
  by (simp add: objects_def beginTransaction_def)

lemma snapshot_beginTransaction: "snapshot (beginTransaction r) = Some (live r)"
  by (simp add: beginTransaction_def)

lemma objectForPrimaryKey_begin:
  "objectForPrimaryKey c k (beginTransaction r) = objectForPrimaryKey c k r"
  by (simp add: objectForPrimaryKey_def objects_beginTransaction)

lemma find_Some_holds: "find P xs = Some x \<Longrightarrow> P x"
  by (auto simp: find_Some_iff)

lemma objectForPrimaryKey_key: "objectForPrimaryKey c k r = Some obj \<Longrightarrow> keyOf c obj = k"
  unfolding objectForPrimaryKey_def by (rule find_Some_holds)

lemma cancel_restores:
  "snapshot r = None \<Longrightarrow> snapshot r' = Some (live r) \<Longrightarrow> cancelTransaction r' = r"
  by (simp add: cancelTransaction_def)

subsection \<open>Callbacks keep the transaction marker\<close>

lemma keepsSnapshot_create: "keepsSnapshot (create c obj u)"
  by (simp add: keepsSnapshot_def create_def snapshot_putTable split: option.splits)

lemma keepsSnapshot_delete: "keepsSnapshot (delete c t)"
  by (simp add: keepsSnapshot_def delete_def snapshot_putTable split: option.splits)

lemma keepsSnapshot_deleteAll: "keepsSnapshot deleteAll"
  by (simp add: keepsSnapshot_def deleteAll_def)

lemma keepsSnapshot_storeField: "keepsSnapshot (storeField c k p v)"
  by (simp add: keepsSnapshot_def storeField_def snapshot_putTable)

lemma keepsSnapshot_setObjectProp: "keepsSnapshot store \<Longrightarrow> keepsSnapshot (setObjectProp ps p v store)"
  by (simp add: keepsSnapshot_def setObjectProp_def split: option.splits)

lemma keepsSnapshot_andThen:
  assumes "keepsSnapshot m" "keepsSnapshot n"
  shows "keepsSnapshot (andThen m n)"
  unfolding keepsSnapshot_def
proof
  fix r
  obtain r1 res where eq: "m r = (r1, res)" by (cases "m r")
  have s1: "snapshot r1 = snapshot r"
    using assms(1) eq by (metis keepsSnapshot_def fst_conv)
  have s2: "snapshot (fst (n r1)) = snapshot r1"
    using assms(2) by (simp add: keepsSnapshot_def)
  show "snapshot (fst (andThen m n r)) = snapshot r"
    using eq s1 s2 by (cases res) (simp_all add: andThen_def)
qed

lemma keepsSnapshot_each: "(\<And>x. keepsSnapshot (f x)) \<Longrightarrow> keepsSnapshot (each xs f)"
proof (induction xs)
  case Nil
  show ?case by (simp add: keepsSnapshot_def)
next
  case (Cons x xs)
  have fx: "\<And>r. snapshot (fst (f x r)) = snapshot r"
    using Cons.prems by (simp add: keepsSnapshot_def)
  have ih: "\<And>r. snapshot (fst (each xs f r)) = snapshot r"
    using Cons by (simp add: keepsSnapshot_def)
  show ?case
    unfolding keepsSnapshot_def
  proof
    fix r
    obtain r1 res where eq: "f x r = (r1, res)" by (cases "f x r")
    have s1: "snapshot r1 = snapshot r" using fx[of r] eq by simp
    show "snapshot (fst (each (x # xs) f r)) = snapshot r"
      using eq s1 ih[of r1] by (cases res) simp_all
  qed
qed

lemma keepsSnapshot_addNodesStep: "keepsSnapshot (addNodesStep urls node)"
  by (simp add: addNodesStep_def keepsSnapshot_create)

subsection \<open>Commit and rollback of a write\<close>

lemma write_rollback:
  assumes "keepsSnapshot f" "snapshot r = None" "f (beginTransaction r) = (r', Inl e)"
  shows "realm_write f r = (r, Inl e)"
proof -
  have "snapshot r' = Some (live r)"
    using assms(1,3) by (metis keepsSnapshot_def fst_conv snapshot_beginTransaction)
  then show ?thesis
    using assms(2,3) by (simp add: realm_write_def cancel_restores)
qed

lemma write_commit:
  assumes "snapshot r = None" "f (beginTransaction r) = (r', Inr v)"
  shows "realm_write f r = (commitTransaction r', Inr ())"
  using assms by (simp add: realm_write_def)

lemma write_failure_unchanged:
  assumes "keepsSnapshot f" "realm_write f r = (r', Inl e)"
  shows "r' = r"
proof (cases "snapshot r")
  case None
  obtain s res where eq: "f (beginTransaction r) = (s, res)" by (cases "f (beginTransaction r)")
  show ?thesis
  proof (cases res)
    case (Inl e')
    then show ?thesis using write_rollback[OF assms(1) None] eq assms(2) by simp
  next
    case (Inr v)
    then show ?thesis using write_commit[OF None, of f s v] eq assms(2) by simp
  qed
next
  case (Some t)
  then show ?thesis using assms(2) by (simp add: realm_write_def)
qed

lemma promise_rejected: "promise body r = (r', Inl e) \<longleftrightarrow> body r = (r', Inl e)"
  by (cases "body r") (auto simp: promise_def split: sum.splits)

section \<open>Account.migrate\<close>

lemma migrate_raises:
  assumes "snapshot r = None" "Account_getObjectForId (JStr from) r = Some acc"
  shows "Account_migrate from to r = (r, Inl DuplicatePrimaryKey)"
proof -
  let ?obj = "assign (assignOpt [] (Some acc)) [(''accountName'', JStr to)]"
  have k: "keyOf Account acc = JStr from"
    using assms(2) by (simp add: Account_getObjectForId_def objectForPrimaryKey_key)
  have m: "map_of acc ''name'' = Some (JStr from)"
    using k getProp_defined[of acc "''name''"] by (simp add: keyOf_def)
  have ko: "keyOf Account ?obj = JStr from"
    by (simp add: keyOf_def assignOpt_def getProp_assign m)
  have found: "objectForPrimaryKey Account (JStr from) (beginTransaction r) = Some acc"
    using assms(2) by (simp add: Account_getObjectForId_def objectForPrimaryKey_begin)
  have c: "create Account ?obj False (beginTransaction r)
             = (beginTransaction r, Inl DuplicatePrimaryKey)"
    by (simp add: create_def ko found snapshot_beginTransaction)
  have body: "andThen (create Account ?obj False) (delete Account (Some acc)) (beginTransaction r)
                = (beginTransaction r, Inl DuplicatePrimaryKey)"
    by (simp add: andThen_def c)
  have ks: "keepsSnapshot (andThen (create Account ?obj False) (delete Account (Some acc)))"
    by (simp add: keepsSnapshot_andThen keepsSnapshot_create keepsSnapshot_delete)
  show ?thesis
    using write_rollback[OF ks assms(1) body] assms(2) by (simp add: Account_migrate_def)
qed

text \<open>
  Claim C1. The claim: for a stored account \<open>from\<close>, \<^verbatim>\<open>Account.migrate(from, to)\<close> leaves a
  record at \<open>to\<close> with the fields of \<open>from\<close> and no record at \<open>from\<close>.
  What the code does: the object it creates is the old account with one more property,
  \<^verbatim>\<open>accountName\<close>; its primary key \<^verbatim>\<open>name\<close> is still \<open>from\<close>, so \<^verbatim>\<open>realm.create\<close>
  refuses it as a duplicate, the write is rolled back and the exception reaches the
  caller. For every stored account the migration raises and the store is unchanged:
  the record at \<open>from\<close> is still there and nothing was created at \<open>to\<close>.
\<close>

theorem Account_migrate_raises_duplicate_key:
  assumes "snapshot r = None"
    and "Account_getObjectForId (JStr from) r = Some acc"
  shows "Account_migrate from to r = (r, Inl DuplicatePrimaryKey)
       \<and> Account_getObjectForId (JStr from) (fst (Account_migrate from to r)) = Some acc
       \<and> Account_getObjectForId (JStr to) (fst (Account_migrate from to r))
           = Account_getObjectForId (JStr to) r"
  using migrate_raises[OF assms] assms(2) by simp

theorem Account_migrate_alice_bob:
  "snapshot aliceRealm = None
   \<and> Account_getObjectForId (JStr ''alice'') aliceRealm = Some aliceAccount
   \<and> Account_migrate ''alice'' ''bob'' aliceRealm = (aliceRealm, Inl DuplicatePrimaryKey)
   \<and> Account_getObjectForId (JStr ''alice'') (fst (Account_migrate ''alice'' ''bob'' aliceRealm))
       = Some aliceAccount
   \<and> Account_getObjectForId (JStr ''bob'') (fst (Account_migrate ''alice'' ''bob'' aliceRealm)) = None"
proof -
  have s: "snapshot aliceRealm = None"
    by (simp add: aliceRealm_def)
  have g: "Account_getObjectForId (JStr ''alice'') aliceRealm = Some aliceAccount"
    by (simp add: Account_getObjectForId_def objectForPrimaryKey_def objects_def keyOf_def
        getProp_def aliceRealm_def aliceAccount_def)
  have b: "Account_getObjectForId (JStr ''bob'') aliceRealm = None"
    by (simp add: Account_getObjectForId_def objectForPrimaryKey_def objects_def keyOf_def
        getProp_def aliceRealm_def aliceAccount_def)
  show ?thesis
    using Account_migrate_raises_duplicate_key[OF s g, of "''bob''"] s g b by simp
qed

section \<open>Atomicity of a write scope\<close>

lemma keepsSnapshot_assignSetting: "keepsSnapshot (assignSetting sch p v)"
  using keepsSnapshot_setObjectProp[OF keepsSnapshot_storeField]
  by (auto simp: keepsSnapshot_def assignSetting_def split: sum.splits jsval.splits)

lemma keepsSnapshot_assignData: "keepsSnapshot (assignData sch p v)"
  using keepsSnapshot_setObjectProp[OF keepsSnapshot_storeField]
  by (auto simp: keepsSnapshot_def assignData_def split: option.splits)

lemma keepsSnapshot_assignNotification: "keepsSnapshot (assignNotification sch t v)"
  using keepsSnapshot_setObjectProp[OF keepsSnapshot_storeField]
  by (auto simp: keepsSnapshot_def assignNotification_def split: sum.splits jsval.splits)

lemma keepsSnapshot_pushErrorLog: "keepsSnapshot (pushErrorLog sch v)"
  using keepsSnapshot_storeField
  by (auto simp: keepsSnapshot_def pushErrorLog_def split: option.splits jstype.splits)

lemma addNodes_failure_unchanged:
  assumes "Node_addNodes nodeList r = (r', Inl e)"
  shows "r' = r"
proof (cases "size_of nodeList = 0")
  case True
  then show ?thesis using assms by (simp add: Node_addNodes_def)
next
  case False
  have ks: "keepsSnapshot (each (case nodeList of None \<Rightarrow> [] | Some ns \<Rightarrow> ns) (addNodesStep (storedUrls r)))"
    by (rule keepsSnapshot_each) (rule keepsSnapshot_addNodesStep)
  show ?thesis
    using False assms write_failure_unchanged[OF ks, of r r' e]
    by (simp add: Node_addNodes_def storedUrls_def)
qed

lemma addNodes_error_propagates:
  assumes "snapshot r = None"
    and "each ns (addNodesStep (storedUrls r)) (beginTransaction r) = (s, Inl e)"
  shows "Node_addNodes (Some ns) r = (r, Inl e)"
proof -
  have ne: "ns \<noteq> []" using assms(2) by auto
  have ks: "keepsSnapshot (each ns (addNodesStep (storedUrls r)))"
    by (rule keepsSnapshot_each) (rule keepsSnapshot_addNodesStep)
  show ?thesis
    using ne write_rollback[OF ks assms(1) assms(2)]
    by (simp add: Node_addNodes_def storedUrls_def size_of_def)
qed

lemma migrate_failure_unchanged:
  assumes "Account_migrate from to r = (r', Inl e)"
  shows "r' = r"
proof -
  let ?f = "andThen (create Account (assign (assignOpt [] (Account_getObjectForId (JStr from) r))
                [(''accountName'', JStr to)]) False)
              (delete Account (Account_getObjectForId (JStr from) r))"
  have ks: "keepsSnapshot ?f"
    by (simp add: keepsSnapshot_andThen keepsSnapshot_create keepsSnapshot_delete)
  show ?thesis
    using assms write_failure_unchanged[OF ks, of r r' e]
    by (simp add: Account_migrate_def Let_def)
qed

lemma updateCurrencyData_failure_unchanged:
  assumes "Wallet_updateCurrencyData sch payload r = (r', Inl e)"
  shows "r' = r"
  using assms
  by (auto simp: Wallet_updateCurrencyData_def keepsSnapshot_andThen keepsSnapshot_assignSetting
      intro!: write_failure_unchanged[of _ r r' e])

lemma setRandomlySelectedNode_failure_unchanged:
  assumes "Wallet_setRandomlySelectedNode sch payload r = (r', Inl e)"
  shows "r' = r"
  using assms
  by (auto simp: Wallet_setRandomlySelectedNode_def keepsSnapshot_andThen keepsSnapshot_assignSetting
      intro!: write_failure_unchanged[of _ r r' e])

lemma setVersions_failure_unchanged:
  assumes "Wallet_setVersions sch payload r = (r', Inl e)"
  shows "r' = r"
  using assms
  by (auto simp: Wallet_setVersions_def keepsSnapshot_andThen keepsSnapshot_assignSetting
      intro!: write_failure_unchanged[of _ r r' e])

lemma purge_failure_unchanged:
  assumes "purge r = (r', Inl e)"
  shows "r' = r"
  using assms write_failure_unchanged[OF keepsSnapshot_deleteAll, of r r' e]
  by (simp add: purge_def promise_rejected)

text \<open>
  Claim C2. A write scope whose callback raises after some of its writes commits none
  of them: the store after the call is the store before it, and the exception of the
  callback is the exception the caller gets. This holds for every callback that performs
  store operations (first conjunct), in particular for the loop of \<^verbatim>\<open>Node.addNodes\<close>
  (second conjunct, with the list of nodes read back unchanged), and every operation of
  the module that writes more than once in its scope, as well as \<^verbatim>\<open>purge\<close>, leaves the
  store as it was whenever it fails.
\<close>

theorem write_scope_rolls_back_on_failure:
  "(keepsSnapshot f \<longrightarrow> snapshot r = None \<longrightarrow> f (beginTransaction r) = (s, Inl e)
      \<longrightarrow> realm_write f r = (r, Inl e))
   \<and> (snapshot r = None \<longrightarrow> each ns (addNodesStep (storedUrls r)) (beginTransaction r) = (s', Inl e')
      \<longrightarrow> Node_addNodes (Some ns) r = (r, Inl e')
          \<and> Node_getDataAsArray (fst (Node_addNodes (Some ns) r)) = Node_getDataAsArray r)
   \<and> (Node_addNodes nodeList r = (r1, Inl e1) \<longrightarrow> r1 = r)
   \<and> (Account_migrate from to r = (r2, Inl e2) \<longrightarrow> r2 = r)
   \<and> (Wallet_updateCurrencyData sch currencyData r = (r3, Inl e3) \<longrightarrow> r3 = r)
   \<and> (Wallet_setRandomlySelectedNode sch node r = (r4, Inl e4) \<longrightarrow> r4 = r)
   \<and> (Wallet_setVersions sch versions r = (r5, Inl e5) \<longrightarrow> r5 = r)
   \<and> (purge r = (r6, Inl e6) \<longrightarrow> r6 = r)"
  using write_rollback[of f r s e] addNodes_error_propagates[of r ns s' e']
    addNodes_failure_unchanged[of nodeList r r1 e1] migrate_failure_unchanged[of "from" to r r2 e2]
    updateCurrencyData_failure_unchanged[of sch currencyData r r3 e3]
    setRandomlySelectedNode_failure_unchanged[of sch node r r4 e4]
    setVersions_failure_unchanged[of sch versions r r5 e5]
    purge_failure_unchanged[of r r6 e6]
  by simp

text \<open>
  A batch that fails after one of its two writes: inside the scope the first node is
  stored when the second is refused; after the call the store is empty as before.
\<close>

theorem addNodes_fails_after_one_of_two_writes:
  "snapshot emptyRealm = None
   \<and> keepsSnapshot (each [nodeA, nodeA] (addNodesStep (storedUrls emptyRealm)))
   \<and> each [nodeA, nodeA] (addNodesStep (storedUrls emptyRealm)) (beginTransaction emptyRealm)
       = (\<lparr>live = \<lparr>accounts = [], nodes = [nodeA], wallets = []\<rparr>,
            snapshot = Some \<lparr>accounts = [], nodes = [], wallets = []\<rparr>\<rparr>, Inl DuplicatePrimaryKey)
   \<and> realm_write (each [nodeA, nodeA] (addNodesStep (storedUrls emptyRealm))) emptyRealm
       = (emptyRealm, Inl DuplicatePrimaryKey)
   \<and> Node_addNodes (Some [nodeA, nodeA]) emptyRealm = (emptyRealm, Inl DuplicatePrimaryKey)
   \<and> Node_getDataAsArray (fst (Node_addNodes (Some [nodeA, nodeA]) emptyRealm)) = []"
proof -
  have s: "snapshot emptyRealm = None" by (simp add: emptyRealm_def)
  have b: "each [nodeA, nodeA] (addNodesStep (storedUrls emptyRealm)) (beginTransaction emptyRealm)
       = (\<lparr>live = \<lparr>accounts = [], nodes = [nodeA], wallets = []\<rparr>,
            snapshot = Some \<lparr>accounts = [], nodes = [], wallets = []\<rparr>\<rparr>, Inl DuplicatePrimaryKey)"
    by (simp add: addNodesStep_def storedUrls_def Node_getDataAsArray_def Node_data_def objects_def
        emptyRealm_def beginTransaction_def includes_val_def create_def keyOf_def getProp_def
        nodeA_def objectForPrimaryKey_def putTable_def)
  have g: "Node_getDataAsArray emptyRealm = []"
    by (simp add: Node_getDataAsArray_def Node_data_def objects_def emptyRealm_def)
  have k: "keepsSnapshot (each [nodeA, nodeA] (addNodesStep (storedUrls emptyRealm)))"
    by (rule keepsSnapshot_each) (rule keepsSnapshot_addNodesStep)
  show ?thesis
    using write_scope_rolls_back_on_failure[of "each [nodeA, nodeA] (addNodesStep (storedUrls emptyRealm))"
        emptyRealm _ DuplicatePrimaryKey "[nodeA, nodeA]" _ DuplicatePrimaryKey] s b g k
    by simp
qed

section \<open>Creating and updating objects\<close>

lemma putTable_putTable: "putTable c rows (putTable c rows' r) = putTable c rows r"
  by (cases c) (simp_all add: putTable_def)

lemma putTable_same: "putTable c (objects c r) r = r"
  by (cases c) (simp_all add: putTable_def objects_def)

lemma find_None_keys: "find (\<lambda>obj. f obj = k) xs = None \<longleftrightarrow> k \<notin> f ` set xs"
  by (auto simp: find_None_iff)

lemma objectForPrimaryKey_None:
  "objectForPrimaryKey c k r = None \<longleftrightarrow> k \<notin> keyOf c ` set (objects c r)"
  by (simp add: objectForPrimaryKey_def find_None_keys)

lemma create_insert:
  assumes "snapshot r \<noteq> None" "keyOf c obj \<noteq> JUndefined" "keyOf c obj \<notin> keyOf c ` set (objects c r)"
  shows "create c obj u r = (putTable c (objects c r @ [obj]) r, Inr ())"
  using assms objectForPrimaryKey_None[of c "keyOf c obj" r] by (simp add: create_def)

lemma create_update:
  assumes "snapshot r \<noteq> None" "keyOf c obj \<noteq> JUndefined" "keyOf c obj \<in> keyOf c ` set (objects c r)"
  shows "create c obj True r =
           (putTable c (map (\<lambda>row. if keyOf c row = keyOf c obj then assign row obj else row)
                          (objects c r)) r, Inr ())"
proof -
  have "objectForPrimaryKey c (keyOf c obj) r \<noteq> None"
    using assms(3) by (simp add: objectForPrimaryKey_None)
  then show ?thesis using assms(1,2) by (auto simp: create_def)
qed

lemma create_duplicate:
  assumes "snapshot r \<noteq> None" "keyOf c obj \<noteq> JUndefined" "keyOf c obj \<in> keyOf c ` set (objects c r)"
  shows "create c obj False r = (r, Inl DuplicatePrimaryKey)"
proof -
  have "objectForPrimaryKey c (keyOf c obj) r \<noteq> None"
    using assms(3) by (simp add: objectForPrimaryKey_None)
  then show ?thesis using assms(1,2) by (auto simp: create_def)
qed

lemma keys_after_update:
  assumes "keyOf c obj \<noteq> JUndefined"
  shows "map (keyOf c) (map (\<lambda>row. if keyOf c row = keyOf c obj then assign row obj else row) rows)
           = map (keyOf c) rows"
  using assms by (induction rows) (simp_all add: keyOf_assign)

lemma getProp_assign_empty: "getProp (assign [] obj) p = getProp obj p"
  by (cases "map_of obj p") (simp_all add: getProp_assign, simp_all add: getProp_def)

lemma storedUrls_keys: "storedUrls r = map (keyOf Node) (objects Node r)"
  by (simp add: storedUrls_def Node_getDataAsArray_def Node_data_def keyOf_def getProp_assign_empty)

lemma commit_putTable_begin:
  "snapshot r = None \<Longrightarrow> commitTransaction (putTable c rows (beginTransaction r)) = putTable c rows r"
  by (simp add: commitTransaction_def putTable_def beginTransaction_def)

lemma create_keysDistinct:
  assumes "keysDistinct c' r"
  shows "keysDistinct c' (fst (create c obj u r))"
proof (cases "c' = c")
  case False
  have "objects c' (fst (create c obj u r)) = objects c' r"
    using False by (simp add: create_def objects_putTable split: option.splits)
  then show ?thesis using assms by (simp add: keysDistinct_def)
next
  case True
  show ?thesis
  proof (cases "snapshot r = None \<or> keyOf c obj = JUndefined")
    case True
    then show ?thesis using assms by (auto simp: create_def)
  next
    case ok: False
    show ?thesis
    proof (cases "keyOf c obj \<in> keyOf c ` set (objects c r)")
      case False
      have "create c obj u r = (putTable c (objects c r @ [obj]) r, Inr ())"
        using ok False by (intro create_insert) simp_all
      then show ?thesis
        using assms False \<open>c' = c\<close> by (simp add: keysDistinct_def objects_putTable)
    next
      case stored: True
      show ?thesis
      proof (cases u)
        case True
        have "create c obj True r =
           (putTable c (map (\<lambda>row. if keyOf c row = keyOf c obj then assign row obj else row)
                          (objects c r)) r, Inr ())"
          using ok stored by (intro create_update) simp_all
        then show ?thesis
          using assms True \<open>c' = c\<close> ok keys_after_update[of c obj "objects c r"]
          by (simp add: keysDistinct_def objects_putTable del: map_map)
      next
        case False
        have "create c obj False r = (r, Inl DuplicatePrimaryKey)"
          using ok stored by (intro create_duplicate) simp_all
        then show ?thesis using assms False by simp
      qed
    qed
  qed
qed

lemma write_keysDistinct:
  assumes "keepsSnapshot f"
    and "\<And>s. keysDistinct c s \<Longrightarrow> keysDistinct c (fst (f s))"
    and "keysDistinct c r"
  shows "keysDistinct c (fst (realm_write f r))"
proof (cases "snapshot r")
  case (Some t)
  then show ?thesis using assms(3) by (simp add: realm_write_def)
next
  case None
  obtain s res where eq: "f (beginTransaction r) = (s, res)" by (cases "f (beginTransaction r)")
  have kb: "keysDistinct c (beginTransaction r)"
    using assms(3) by (simp add: keysDistinct_def objects_beginTransaction)
  have ks: "keysDistinct c s" using assms(2)[OF kb] eq by simp
  show ?thesis
  proof (cases res)
    case (Inl e)
    then show ?thesis using write_rollback[OF assms(1) None] eq assms(3) by simp
  next
    case (Inr v)
    have "objects c (commitTransaction s) = objects c s"
      by (simp add: objects_def commitTransaction_def)
    then show ?thesis
      using write_commit[OF None, of f s v] eq Inr ks by (simp add: keysDistinct_def)
  qed
qed

lemma addCustomNode_stored:
  assumes "snapshot r = None" "Node_getObjectForId (JStr url) r = Some old"
  shows "Node_addCustomNode url pow r = (r, Inl DuplicatePrimaryKey)"
proof -
  let ?obj = "[(''url'', JStr url), (''custom'', JBool True), (''pow'', pow)]"
  have k: "keyOf Node ?obj = JStr url" by (simp add: keyOf_def getProp_def)
  have "objectForPrimaryKey Node (JStr url) (beginTransaction r) \<noteq> None"
    using assms(2) by (simp add: Node_getObjectForId_def objectForPrimaryKey_begin)
  then have "keyOf Node ?obj \<in> keyOf Node ` set (objects Node (beginTransaction r))"
    unfolding k by (simp add: objectForPrimaryKey_None)
  then have "create Node ?obj False (beginTransaction r) = (beginTransaction r, Inl DuplicatePrimaryKey)"
    using k by (intro create_duplicate) (simp_all add: snapshot_beginTransaction)
  then show ?thesis
    using write_rollback[OF keepsSnapshot_create assms(1)] by (simp add: Node_addCustomNode_def)
qed

section \<open>Node.addCustomNode\<close>

text \<open>
  Claim C3, as the code has it. The claim says that \<^verbatim>\<open>Node.addCustomNode(url, pow)\<close> on a
  stored URL replaces the fields of the stored node. The code calls \<^verbatim>\<open>realm.create\<close>
  without the update flag, so for a stored URL the call is refused as a duplicate primary
  key: the stored node keeps its fields, no second node appears, and the store is
  unchanged. The URLs of the stored nodes stay pairwise distinct after every call.
\<close>

theorem addCustomNode_refuses_stored_url:
  "(snapshot r = None \<longrightarrow> Node_getObjectForId (JStr url) r = Some old
      \<longrightarrow> Node_addCustomNode url pow r = (r, Inl DuplicatePrimaryKey)
          \<and> Node_getObjectForId (JStr url) (fst (Node_addCustomNode url pow r)) = Some old
          \<and> Node_data (fst (Node_addCustomNode url pow r)) = Node_data r)
   \<and> (keysDistinct Node r \<longrightarrow> keysDistinct Node (fst (Node_addCustomNode url pow r)))"
proof -
  have "keysDistinct Node (fst (Node_addCustomNode url pow r))" if "keysDistinct Node r"
    unfolding Node_addCustomNode_def
    by (rule write_keysDistinct[OF keepsSnapshot_create _ that]) (rule create_keysDistinct)
  then show ?thesis
    using addCustomNode_stored[of r url old pow] by auto
qed

text \<open>
  The claim as stated fails: node \<open>a\<close> is stored with \<open>custom\<close> and \<open>pow\<close> false; adding
  it as a custom node raises, and the stored node is not replaced.
\<close>

theorem addCustomNode_stored_url_counterexample:
  "Node_getObjectForId (JStr ''a'') nodeRealm = Some storedA
   \<and> Node_addCustomNode ''a'' (JBool True) nodeRealm = (nodeRealm, Inl DuplicatePrimaryKey)
   \<and> getProp storedA ''custom'' = JBool False
   \<and> getProp storedA ''pow'' = JBool False"
  by (simp add: Node_getObjectForId_def objectForPrimaryKey_def objects_def keyOf_def getProp_def
      nodeRealm_def storedA_def Node_addCustomNode_def realm_write_def beginTransaction_def
      create_def cancelTransaction_def)

theorem addCustomNode_refuses_stored_url_witness:
  "snapshot nodeRealm = None
   \<and> Node_getObjectForId (JStr ''a'') nodeRealm = Some storedA
   \<and> keysDistinct Node nodeRealm
   \<and> Node_addCustomNode ''a'' (JBool True) nodeRealm = (nodeRealm, Inl DuplicatePrimaryKey)
   \<and> Node_data (fst (Node_addCustomNode ''a'' (JBool True) nodeRealm)) = [storedA]
   \<and> keysDistinct Node (fst (Node_addCustomNode ''a'' (JBool True) nodeRealm))"
proof -
  have s: "snapshot nodeRealm = None" by (simp add: nodeRealm_def)
  have g: "Node_getObjectForId (JStr ''a'') nodeRealm = Some storedA"
    by (simp add: Node_getObjectForId_def objectForPrimaryKey_def objects_def keyOf_def getProp_def
        nodeRealm_def storedA_def)
  have d: "keysDistinct Node nodeRealm"
    by (simp add: keysDistinct_def objects_def nodeRealm_def)
  have n: "Node_data nodeRealm = [storedA]"
    by (simp add: Node_data_def objects_def nodeRealm_def)
  show ?thesis
    using addCustomNode_refuses_stored_url[of nodeRealm "''a''" storedA "JBool True"] s g d n
    by simp
qed

section \<open>Node.addNodes\<close>

lemma each_addNodes:
  assumes "snapshot s \<noteq> None"
    and "\<forall>n\<in>set ns. keyOf Node n \<noteq> JUndefined"
    and "distinct (map (keyOf Node) (freshNodes E ns))"
    and "set E \<subseteq> keyOf Node ` set (objects Node s)"
    and "\<forall>n\<in>set (freshNodes E ns). keyOf Node n \<notin> keyOf Node ` set (objects Node s)"
  shows "each ns (addNodesStep E) s
           = (putTable Node (map (upserted E ns) (objects Node s) @ freshNodes E ns) s, Inr ())"
  using assms
proof (induction ns arbitrary: s)
  case Nil
  have "upserted E [] = (\<lambda>row. row)"
    by (rule ext) (simp add: upserted_def)
  then have "map (upserted E []) (objects Node s) = objects Node s"
    by simp
  then show ?case by (simp add: freshNodes_def putTable_same)
next
  case (Cons n ns)
  have kn: "keyOf Node n \<noteq> JUndefined" using Cons.prems(2) by simp
  have rest: "\<forall>m\<in>set ns. keyOf Node m \<noteq> JUndefined" using Cons.prems(2) by simp
  show ?case
  proof (cases "keyOf Node n \<in> set E")
    case True
    let ?h = "\<lambda>row. if keyOf Node row = keyOf Node n then assign row n else row"
    let ?s1 = "putTable Node (map ?h (objects Node s)) s"
    have fr: "freshNodes E (n # ns) = freshNodes E ns"
      using True by (simp add: freshNodes_def)
    have stored: "keyOf Node n \<in> keyOf Node ` set (objects Node s)"
      using True Cons.prems(4) by auto
    have step: "addNodesStep E n s = (?s1, Inr ())"
      using True create_update[OF Cons.prems(1) kn stored]
      by (simp add: addNodesStep_def includes_val_def keyOf_def)
    have keys1: "map (keyOf Node) (objects Node ?s1) = map (keyOf Node) (objects Node s)"
      by (simp add: objects_putTable keyOf_assign[OF kn])
    have keyset1: "keyOf Node ` set (objects Node ?s1) = keyOf Node ` set (objects Node s)"
      using arg_cong[OF keys1, of set] by simp
    have ih: "each ns (addNodesStep E) ?s1
                = (putTable Node (map (upserted E ns) (objects Node ?s1) @ freshNodes E ns) ?s1, Inr ())"
    proof (rule Cons.IH)
      show "snapshot ?s1 \<noteq> None" using Cons.prems(1) by (simp add: snapshot_putTable)
      show "\<forall>m\<in>set ns. keyOf Node m \<noteq> JUndefined" by (rule rest)
      show "distinct (map (keyOf Node) (freshNodes E ns))" using Cons.prems(3) fr by simp
      show "set E \<subseteq> keyOf Node ` set (objects Node ?s1)" using Cons.prems(4) keyset1 by simp
      show "\<forall>m\<in>set (freshNodes E ns). keyOf Node m \<notin> keyOf Node ` set (objects Node ?s1)"
        using Cons.prems(5) fr keyset1 by simp
    qed
    have pt: "upserted E ns (?h row) = upserted E (n # ns) row" for row
    proof (cases "keyOf Node row = keyOf Node n")
      case same: True
      then show ?thesis using True kn by (simp add: upserted_def keyOf_assign)
    next
      case False
      then have "keyOf Node n \<noteq> keyOf Node row" by simp
      then show ?thesis using False by (simp add: upserted_def)
    qed
    have rows: "map (upserted E ns) (map ?h (objects Node s)) = map (upserted E (n # ns)) (objects Node s)"
      unfolding map_map comp_def by (rule map_cong[OF refl]) (rule pt)
    have o1: "objects Node ?s1 = map ?h (objects Node s)"
      by (simp add: objects_putTable)
    have "each (n # ns) (addNodesStep E) s
            = (putTable Node (map (upserted E ns) (objects Node ?s1) @ freshNodes E ns) ?s1, Inr ())"
      by (simp only: each.simps step ih prod.case sum.case)
    then show ?thesis
      by (simp only: o1 rows fr putTable_putTable)
  next
    case False
    let ?s1 = "putTable Node (objects Node s @ [n]) s"
    have fr: "freshNodes E (n # ns) = n # freshNodes E ns"
      using False by (simp add: freshNodes_def)
    have absent: "keyOf Node n \<notin> keyOf Node ` set (objects Node s)"
      using Cons.prems(5) fr by simp
    have step: "addNodesStep E n s = (?s1, Inr ())"
      using False create_insert[OF Cons.prems(1) kn absent]
      by (simp add: addNodesStep_def includes_val_def keyOf_def)
    have ih: "each ns (addNodesStep E) ?s1
                = (putTable Node (map (upserted E ns) (objects Node ?s1) @ freshNodes E ns) ?s1, Inr ())"
    proof (rule Cons.IH)
      show "snapshot ?s1 \<noteq> None" using Cons.prems(1) by (simp add: snapshot_putTable)
      show "\<forall>m\<in>set ns. keyOf Node m \<noteq> JUndefined" by (rule rest)
      show "distinct (map (keyOf Node) (freshNodes E ns))" using Cons.prems(3) fr by simp
      show "set E \<subseteq> keyOf Node ` set (objects Node ?s1)"
        using Cons.prems(4) by (auto simp: objects_putTable)
      show "\<forall>m\<in>set (freshNodes E ns). keyOf Node m \<notin> keyOf Node ` set (objects Node ?s1)"
      proof
        fix m assume m: "m \<in> set (freshNodes E ns)"
        have "keyOf Node n \<notin> set (map (keyOf Node) (freshNodes E ns))"
          using Cons.prems(3) unfolding fr by simp
        then have "keyOf Node m \<noteq> keyOf Node n"
          using m by (metis imageI set_map)
        moreover have "keyOf Node m \<notin> keyOf Node ` set (objects Node s)"
          using Cons.prems(5) m unfolding fr by simp
        ultimately show "keyOf Node m \<notin> keyOf Node ` set (objects Node ?s1)"
          by (simp add: objects_putTable)
      qed
    qed
    have pt: "upserted E ns row = upserted E (n # ns) row" for row
      using False by (auto simp: upserted_def)
    have rows: "map (upserted E ns) (objects Node s) = map (upserted E (n # ns)) (objects Node s)"
      by (rule map_cong[OF refl]) (rule pt)
    have un: "upserted E ns n = n" using False by (simp add: upserted_def)
    have o1: "objects Node ?s1 = objects Node s @ [n]"
      by (simp add: objects_putTable)
    have "each (n # ns) (addNodesStep E) s
            = (putTable Node (map (upserted E ns) (objects Node ?s1) @ freshNodes E ns) ?s1, Inr ())"
      by (simp only: each.simps step ih prod.case sum.case)
    then show ?thesis
      by (simp only: o1 map_append list.map rows un fr putTable_putTable append_assoc append.simps)
  qed
qed

lemma addNodes_result:
  assumes "snapshot r = None"
    and "\<forall>n\<in>set ns. keyOf Node n \<noteq> JUndefined"
    and "distinct (map (keyOf Node) (freshNodes (storedUrls r) ns))"
  shows "Node_addNodes (Some ns) r
           = (putTable Node (map (upserted (storedUrls r) ns) (objects Node r)
                             @ freshNodes (storedUrls r) ns) r, Inr ())"
proof (cases "ns = []")
  case True
  have "upserted (storedUrls r) [] = (\<lambda>row. row)"
    by (rule ext) (simp add: upserted_def)
  then show ?thesis
    using True by (simp add: Node_addNodes_def size_of_def freshNodes_def putTable_same)
next
  case False
  let ?E = "storedUrls r"
  have body: "each ns (addNodesStep ?E) (beginTransaction r)
                = (putTable Node (map (upserted ?E ns) (objects Node (beginTransaction r))
                                  @ freshNodes ?E ns) (beginTransaction r), Inr ())"
  proof (rule each_addNodes)
    show "snapshot (beginTransaction r) \<noteq> None" by (simp add: snapshot_beginTransaction)
    show "\<forall>n\<in>set ns. keyOf Node n \<noteq> JUndefined" by (rule assms(2))
    show "distinct (map (keyOf Node) (freshNodes ?E ns))" by (rule assms(3))
    show "set ?E \<subseteq> keyOf Node ` set (objects Node (beginTransaction r))"
      by (simp add: storedUrls_keys objects_beginTransaction)
    show "\<forall>n\<in>set (freshNodes ?E ns). keyOf Node n \<notin> keyOf Node ` set (objects Node (beginTransaction r))"
      by (simp add: storedUrls_keys objects_beginTransaction freshNodes_def)
  qed
  have "realm_write (each ns (addNodesStep ?E)) r
          = (putTable Node (map (upserted ?E ns) (objects Node r) @ freshNodes ?E ns) r, Inr ())"
    using write_commit[where f = "each ns (addNodesStep ?E)" and r = r, OF assms(1) body]
    by (simp add: commit_putTable_begin[OF assms(1)] objects_beginTransaction)
  then show ?thesis
    using False by (simp add: Node_addNodes_def size_of_def storedUrls_def)
qed

lemma upserted_stored:
  assumes "row \<in> set (objects Node r)"
  shows "upserted (storedUrls r) ns row
           = foldl assign row (filter (\<lambda>n. getProp n ''url'' = getProp row ''url'') ns)"
  using assms by (simp add: upserted_def storedUrls_keys keyOf_def)

lemma objects_other_putTable: "c' \<noteq> c \<Longrightarrow> objects c' (putTable c rows r) = objects c' r"
  by (simp add: objects_putTable)

text \<open>
  Claim C4, as the code has it. For a list of nodes that each carry a URL and in which no
  URL that is not yet stored occurs twice, \<^verbatim>\<open>Node.addNodes\<close> succeeds in one write scope:
  every stored node keeps its place and has the properties of the input nodes with its
  URL written over it, the nodes with a new URL are appended in the order of the list,
  and accounts and the wallet row are untouched. In particular adding \<open>a\<close> (custom) and
  \<open>b\<close> and then \<open>a\<close> (not custom) leaves exactly the two nodes, \<open>a\<close> not custom and \<open>b\<close>
  as it was.
\<close>

theorem addNodes_upserts_stored_and_inserts_fresh:
  assumes "snapshot r = None"
    and "\<forall>n\<in>set ns. getProp n ''url'' \<noteq> JUndefined"
    and "distinct (map (\<lambda>n. getProp n ''url'')
                    (filter (\<lambda>n. getProp n ''url'' \<notin> set (storedUrls r)) ns))"
  shows "snd (Node_addNodes (Some ns) r) = Inr ()
       \<and> Node_data (fst (Node_addNodes (Some ns) r))
           = map (\<lambda>row. foldl assign row (filter (\<lambda>n. getProp n ''url'' = getProp row ''url'') ns))
               (Node_data r)
             @ filter (\<lambda>n. getProp n ''url'' \<notin> set (storedUrls r)) ns
       \<and> Account_data (fst (Node_addNodes (Some ns) r)) = Account_data r
       \<and> Wallet_data (fst (Node_addNodes (Some ns) r)) = Wallet_data r
       \<and> snapshot (fst (Node_addNodes (Some ns) r)) = None
       \<and> Node_addNodes (Some [[(''url'', JStr ''a''), (''custom'', JBool False)]])
            (fst (Node_addNodes (Some [nodeA, nodeB]) emptyRealm))
           = (\<lparr>live = \<lparr>accounts = [],
                        nodes = [[(''url'', JStr ''a''), (''custom'', JBool False)], nodeB],
                        wallets = []\<rparr>,
                snapshot = None\<rparr>, Inr ())"
proof -
  have fr: "freshNodes (storedUrls r) ns = filter (\<lambda>n. getProp n ''url'' \<notin> set (storedUrls r)) ns"
    by (simp add: freshNodes_def keyOf_def)
  have a2: "\<forall>n\<in>set ns. keyOf Node n \<noteq> JUndefined"
    using assms(2) by (simp add: keyOf_def)
  have a3: "distinct (map (keyOf Node) (freshNodes (storedUrls r) ns))"
    using assms(3) unfolding fr by (simp add: keyOf_def[abs_def])
  have res: "Node_addNodes (Some ns) r
           = (putTable Node (map (upserted (storedUrls r) ns) (objects Node r)
                             @ freshNodes (storedUrls r) ns) r, Inr ())"
    by (rule addNodes_result[OF assms(1) a2 a3])
  have rows: "map (upserted (storedUrls r) ns) (objects Node r)
                = map (\<lambda>row. foldl assign row (filter (\<lambda>n. getProp n ''url'' = getProp row ''url'') ns))
                    (objects Node r)"
    by (rule map_cong[OF refl]) (rule upserted_stored)
  have ex: "Node_addNodes (Some [[(''url'', JStr ''a''), (''custom'', JBool False)]])
            (fst (Node_addNodes (Some [nodeA, nodeB]) emptyRealm))
           = (\<lparr>live = \<lparr>accounts = [],
                        nodes = [[(''url'', JStr ''a''), (''custom'', JBool False)], nodeB],
                        wallets = []\<rparr>,
                snapshot = None\<rparr>, Inr ())"
    by code_simp
  show ?thesis
    unfolding res fst_conv snd_conv
    using ex assms(1)
    by (simp add: Node_data_def Account_data_def Wallet_data_def objects_putTable rows fr
        snapshot_putTable)
qed

theorem addNodes_two_fresh_nodes:
  "snapshot emptyRealm = None
   \<and> snd (Node_addNodes (Some [nodeA, nodeB]) emptyRealm) = Inr ()
   \<and> Node_data (fst (Node_addNodes (Some [nodeA, nodeB]) emptyRealm)) = [nodeA, nodeB]"
proof -
  have s: "snapshot emptyRealm = None" by (simp add: emptyRealm_def)
  have u: "storedUrls emptyRealm = []"
    by (simp add: storedUrls_def Node_getDataAsArray_def Node_data_def objects_def emptyRealm_def)
  have d: "Node_data emptyRealm = []"
    by (simp add: Node_data_def objects_def emptyRealm_def)
  have h2: "\<forall>n\<in>set [nodeA, nodeB]. getProp n ''url'' \<noteq> JUndefined"
    by (simp add: nodeA_def nodeB_def getProp_def)
  have h3: "distinct (map (\<lambda>n. getProp n ''url'')
                    (filter (\<lambda>n. getProp n ''url'' \<notin> set (storedUrls emptyRealm)) [nodeA, nodeB]))"
    by (simp add: u nodeA_def nodeB_def getProp_def)
  show ?thesis
    using addNodes_upserts_stored_and_inserts_fresh[OF s h2 h3] s
    by (simp add: u d)
qed

text \<open>
  The claim for every input list fails: a list that names a new URL twice is refused at
  the second occurrence, which is created without the update flag, and none of its nodes
  is stored.
\<close>

theorem addNodes_repeated_fresh_url_counterexample:
  "Node_addNodes (Some [[(''url'', JStr ''c'')], [(''url'', JStr ''c''), (''custom'', JBool True)]])
       emptyRealm = (emptyRealm, Inl DuplicatePrimaryKey)
   \<and> Node_getObjectForId (JStr ''c'')
       (fst (Node_addNodes (Some [[(''url'', JStr ''c'')], [(''url'', JStr ''c''), (''custom'', JBool True)]])
              emptyRealm)) = None"
  by code_simp

section \<open>Wallet.createIfNotExists\<close>

lemma find_append_new: "find P xs = None \<Longrightarrow> P x \<Longrightarrow> find P (xs @ [x]) = Some x"
  by (induction xs) (simp_all split: if_splits)

lemma filter_key_singleton:
  "distinct (map f xs) \<Longrightarrow> find (\<lambda>x. f x = k) xs = Some y \<Longrightarrow> length (filter (\<lambda>x. f x = k) xs) = 1"
proof (induction xs)
  case Nil
  then show ?case by simp
next
  case (Cons x xs)
  show ?case
  proof (cases "f x = k")
    case True
    have "k \<notin> f ` set xs" using Cons.prems(1) True by auto
    then have "filter (\<lambda>x. f x = k) xs = []" by (auto simp: filter_empty_conv)
    then show ?thesis using True by simp
  next
    case False
    then show ?thesis using Cons by simp
  qed
qed

lemma create_then_find:
  assumes "snapshot r = None" "keyOf c data \<noteq> JUndefined" "objectForPrimaryKey c (keyOf c data) r = None"
  shows "realm_write (create c data False) r = (putTable c (objects c r @ [data]) r, Inr ())"
    and "objectForPrimaryKey c (keyOf c data) (putTable c (objects c r @ [data]) r) = Some data"
proof -
  have absent: "keyOf c data \<notin> keyOf c ` set (objects c (beginTransaction r))"
    using assms(3) by (simp add: objectForPrimaryKey_None objects_beginTransaction)
  have "create c data False (beginTransaction r)
          = (putTable c (objects c (beginTransaction r) @ [data]) (beginTransaction r), Inr ())"
    using assms(2) absent by (intro create_insert) (simp_all add: snapshot_beginTransaction)
  then show "realm_write (create c data False) r = (putTable c (objects c r @ [data]) r, Inr ())"
    using write_commit[where f = "create c data False" and r = r, OF assms(1)]
    by (simp add: commit_putTable_begin[OF assms(1)] objects_beginTransaction)
  show "objectForPrimaryKey c (keyOf c data) (putTable c (objects c r @ [data]) r) = Some data"
    using assms(3) by (simp add: objectForPrimaryKey_def objects_putTable find_append_new)
qed

lemma freshWallet_key: "keyOf Wallet freshWallet = JNum Wallet_version"
  by (simp add: keyOf_def getProp_def freshWallet_def)

lemma createIfNotExists_absent:
  assumes "snapshot r = None" "Wallet_getObjectForId None r = None"
  shows "Wallet_createIfNotExists r = (putTable Wallet (objects Wallet r @ [freshWallet]) r, Inr ())"
    and "Wallet_getObjectForId None (putTable Wallet (objects Wallet r @ [freshWallet]) r) = Some freshWallet"
proof -
  have a: "objectForPrimaryKey Wallet (keyOf Wallet freshWallet) r = None"
    using assms(2) by (simp add: Wallet_getObjectForId_def freshWallet_key)
  have k: "keyOf Wallet freshWallet \<noteq> JUndefined" by (simp add: freshWallet_key)
  show "Wallet_createIfNotExists r = (putTable Wallet (objects Wallet r @ [freshWallet]) r, Inr ())"
    using create_then_find(1)[OF assms(1) k a] assms(2)
    by (simp add: Wallet_createIfNotExists_def isEmpty_def)
  show "Wallet_getObjectForId None (putTable Wallet (objects Wallet r @ [freshWallet]) r) = Some freshWallet"
    using create_then_find(2)[OF assms(1) k a] by (simp add: Wallet_getObjectForId_def freshWallet_key)
qed

lemma createIfNotExists_present:
  assumes "Wallet_getObjectForId None r = Some w"
  shows "Wallet_createIfNotExists r = (r, Inr ())"
proof -
  have "keyOf Wallet w = JNum Wallet_version"
    using assms by (simp add: Wallet_getObjectForId_def objectForPrimaryKey_key)
  then have "w \<noteq> []" by (auto simp: keyOf_def getProp_def)
  then show ?thesis using assms by (simp add: Wallet_createIfNotExists_def isEmpty_def)
qed

text \<open>
  Claim C5. \<^verbatim>\<open>Wallet.createIfNotExists()\<close> is idempotent. From a store outside a write
  scope (with primary keys unique, as Realm keeps them) the call succeeds, a second call
  changes nothing, and after the two calls exactly one wallet row has the current schema
  version. When the row was absent the first call appends it, with settings that hold
  nothing but an empty notification map; when it was present the first call changes
  nothing either.
\<close>

theorem createIfNotExists_idempotent:
  assumes "snapshot r = None" and "keysDistinct Wallet r"
  shows "snd (Wallet_createIfNotExists r) = Inr ()
       \<and> Wallet_createIfNotExists (fst (Wallet_createIfNotExists r))
           = (fst (Wallet_createIfNotExists r), Inr ())
       \<and> length (filter (\<lambda>w. getProp w ''version'' = JNum Wallet_version)
                   (Wallet_data (fst (Wallet_createIfNotExists (fst (Wallet_createIfNotExists r)))))) = 1
       \<and> (Wallet_getObjectForId None r = None \<longrightarrow>
            Wallet_data (fst (Wallet_createIfNotExists r))
              = Wallet_data r @ [[(''version'', JNum Wallet_version),
                                  (''settings'', JObj [(''notifications'', JObj [])])]])
       \<and> (Wallet_getObjectForId None r \<noteq> None \<longrightarrow> fst (Wallet_createIfNotExists r) = r)"
proof (cases "Wallet_getObjectForId None r")
  case None
  let ?r1 = "putTable Wallet (objects Wallet r @ [freshWallet]) r"
  have c1: "Wallet_createIfNotExists r = (?r1, Inr ())"
    by (rule createIfNotExists_absent(1)[OF assms(1) None])
  have g1: "Wallet_getObjectForId None ?r1 = Some freshWallet"
    by (rule createIfNotExists_absent(2)[OF assms(1) None])
  have c2: "Wallet_createIfNotExists ?r1 = (?r1, Inr ())"
    by (rule createIfNotExists_present[OF g1])
  have d1: "keysDistinct Wallet ?r1"
    using assms(2) None
    by (simp add: keysDistinct_def objects_putTable Wallet_getObjectForId_def
        objectForPrimaryKey_None freshWallet_key)
  have "length (filter (\<lambda>w. keyOf Wallet w = JNum Wallet_version) (objects Wallet ?r1)) = 1"
    using d1 g1 unfolding keysDistinct_def Wallet_getObjectForId_def objectForPrimaryKey_def
    by (simp add: filter_key_singleton)
  then show ?thesis
    using None c1 c2
    by (simp add: Wallet_data_def objects_putTable keyOf_def freshWallet_def)
next
  case (Some w)
  have c1: "Wallet_createIfNotExists r = (r, Inr ())"
    by (rule createIfNotExists_present[OF Some])
  have "length (filter (\<lambda>w. keyOf Wallet w = JNum Wallet_version) (objects Wallet r)) = 1"
    using assms(2) Some unfolding keysDistinct_def Wallet_getObjectForId_def objectForPrimaryKey_def
    by (simp add: filter_key_singleton)
  then show ?thesis
    using Some c1 by (simp add: Wallet_data_def keyOf_def)
qed

theorem createIfNotExists_twice_on_empty_store:
  "snapshot emptyRealm = None \<and> keysDistinct Wallet emptyRealm
   \<and> Wallet_getObjectForId None emptyRealm = None
   \<and> Wallet_data (fst (Wallet_createIfNotExists emptyRealm))
       = [[(''version'', JNum 0), (''settings'', JObj [(''notifications'', JObj [])])]]
   \<and> Wallet_createIfNotExists (fst (Wallet_createIfNotExists emptyRealm))
       = (fst (Wallet_createIfNotExists emptyRealm), Inr ())"
proof -
  have s: "snapshot emptyRealm = None" by (simp add: emptyRealm_def)
  have d: "keysDistinct Wallet emptyRealm"
    by (simp add: keysDistinct_def objects_def emptyRealm_def)
  have g: "Wallet_getObjectForId None emptyRealm = None"
    by (simp add: Wallet_getObjectForId_def objectForPrimaryKey_def objects_def emptyRealm_def)
  have w: "Wallet_data emptyRealm = []"
    by (simp add: Wallet_data_def objects_def emptyRealm_def)
  show ?thesis
    using createIfNotExists_idempotent[OF s d] s d g w
    by (simp add: Wallet_version_def SCHEMA_VERSION_def)
qed

section \<open>reinitialise\<close>

lemma purge_result:
  assumes "snapshot r = None"
  shows "purge r = (r\<lparr>live := \<lparr>accounts = [], nodes = [], wallets = []\<rparr>\<rparr>, Inr ())"
  using assms
  by (simp add: purge_def promise_def realm_write_def deleteAll_def beginTransaction_def
      commitTransaction_def)

text \<open>
  Claim C6. From every store outside a write scope, whatever accounts, nodes and wallet
  rows it holds, \<^verbatim>\<open>reinitialise()\<close> (the purge, then the initialisation) resolves and
  leaves no account, no node and exactly one wallet row: the freshly created row of the
  current schema version.
\<close>

theorem reinitialise_leaves_fresh_wallet_only:
  assumes "snapshot r = None"
  shows "reinitialise r
           = (\<lparr>live = \<lparr>accounts = [], nodes = [],
                        wallets = [[(''version'', JNum Wallet_version),
                                    (''settings'', JObj [(''notifications'', JObj [])])]]\<rparr>,
                snapshot = None\<rparr>, Inr ())
       \<and> Account_data (fst (reinitialise r)) = []
       \<and> Node_data (fst (reinitialise r)) = []
       \<and> length (Wallet_data (fst (reinitialise r))) = 1
       \<and> Wallet_getObjectForId None (fst (reinitialise r))
           = Some [(''version'', JNum Wallet_version),
                   (''settings'', JObj [(''notifications'', JObj [])])]"
proof -
  let ?p = "r\<lparr>live := \<lparr>accounts = [], nodes = [], wallets = []\<rparr>\<rparr>"
  have sp: "snapshot ?p = None" using assms by simp
  have gp: "Wallet_getObjectForId None ?p = None"
    by (simp add: Wallet_getObjectForId_def objectForPrimaryKey_def objects_def)
  have i: "initialise ?p = (putTable Wallet (objects Wallet ?p @ [freshWallet]) ?p, Inr ())"
    using createIfNotExists_absent(1)[OF sp gp] by (simp add: initialise_def promise_def)
  have fin: "putTable Wallet (objects Wallet ?p @ [freshWallet]) ?p
          = \<lparr>live = \<lparr>accounts = [], nodes = [], wallets = [freshWallet]\<rparr>, snapshot = None\<rparr>"
    using assms by (simp add: putTable_def objects_def)
  have res: "reinitialise r
          = (\<lparr>live = \<lparr>accounts = [], nodes = [], wallets = [freshWallet]\<rparr>, snapshot = None\<rparr>, Inr ())"
    using purge_result[OF assms] i fin by (simp add: reinitialise_def andThen_def)
  show ?thesis
    unfolding res
    by (simp add: Account_data_def Node_data_def Wallet_data_def objects_def
        Wallet_getObjectForId_def objectForPrimaryKey_def keyOf_def getProp_def freshWallet_def)
qed

theorem reinitialise_busy_store:
  "snapshot busyRealm = None
   \<and> length (Account_data busyRealm) = 1 \<and> length (Node_data busyRealm) = 2
   \<and> reinitialise busyRealm
       = (\<lparr>live = \<lparr>accounts = [], nodes = [],
                    wallets = [[(''version'', JNum 0),
                                (''settings'', JObj [(''notifications'', JObj [])])]]\<rparr>,
            snapshot = None\<rparr>, Inr ())"
proof -
  have s: "snapshot busyRealm = None" by (simp add: busyRealm_def)
  have n: "length (Account_data busyRealm) = 1 \<and> length (Node_data busyRealm) = 2"
    by (simp add: Account_data_def Node_data_def objects_def busyRealm_def)
  show ?thesis
    using reinitialise_leaves_fresh_wallet_only[OF s] s n
    by (simp add: Wallet_version_def SCHEMA_VERSION_def)
qed

section \<open>create, then getObjectForId\<close>

lemma keyType_defined: "keyType c k \<Longrightarrow> k \<noteq> JUndefined"
  by (cases c) auto

lemma getObjectForId_undefined: "Wallet_getObjectForId (Some JUndefined) r = Wallet_getObjectForId None r"
  by (simp add: Wallet_getObjectForId_def)

text \<open>
  Claim C7. For every class, creating a record whose primary key is of the key type and
  not yet stored, and then looking the key up, returns the record as it was given; this
  is so for \<^verbatim>\<open>Account.create\<close>, for the node \<^verbatim>\<open>Node.addCustomNode\<close> creates and for the wallet
  row \<^verbatim>\<open>Wallet.createIfNotExists\<close> creates. Looking up a key of the key type that no stored
  object has returns absence (\<open>None\<close>) and raises nothing. \<^verbatim>\<open>Wallet.getObjectForId\<close> without
  an argument, or with \<^verbatim>\<open>undefined\<close>, looks up the current version: it returns that row when
  it is stored and absence when it is not.
\<close>

theorem create_then_getById_returns_input:
  "(snapshot r = None \<longrightarrow> keyType c (keyOf c data)
      \<longrightarrow> objectForPrimaryKey c (keyOf c data) r = None
      \<longrightarrow> snd (realm_write (create c data False) r) = Inr ()
          \<and> objectForPrimaryKey c (keyOf c data) (fst (realm_write (create c data False) r)) = Some data)
   \<and> (snapshot r = None \<longrightarrow> getProp account ''name'' = JStr name
      \<longrightarrow> Account_getObjectForId (JStr name) r = None
      \<longrightarrow> snd (Account_create account r) = Inr ()
          \<and> Account_getObjectForId (JStr name) (fst (Account_create account r)) = Some account)
   \<and> (snapshot r = None \<longrightarrow> Node_getObjectForId (JStr url) r = None
      \<longrightarrow> snd (Node_addCustomNode url pow r) = Inr ()
          \<and> Node_getObjectForId (JStr url) (fst (Node_addCustomNode url pow r))
              = Some [(''url'', JStr url), (''custom'', JBool True), (''pow'', pow)])
   \<and> (snapshot r = None \<longrightarrow> Wallet_getObjectForId None r = None
      \<longrightarrow> snd (Wallet_createIfNotExists r) = Inr ()
          \<and> Wallet_getObjectForId (Some (JNum Wallet_version)) (fst (Wallet_createIfNotExists r))
              = Some [(''version'', JNum Wallet_version),
                      (''settings'', JObj [(''notifications'', JObj [])])])
   \<and> (keyType c k \<longrightarrow> k \<notin> keyOf c ` set (objects c r) \<longrightarrow> objectForPrimaryKey c k r = None)
   \<and> (JStr name \<notin> keyOf Account ` set (Account_data r)
      \<longrightarrow> Account_getObjectForId (JStr name) r = None)
   \<and> (JStr url \<notin> keyOf Node ` set (Node_data r) \<longrightarrow> Node_getObjectForId (JStr url) r = None)
   \<and> (JNum n \<notin> keyOf Wallet ` set (Wallet_data r)
      \<longrightarrow> Wallet_getObjectForId (Some (JNum n)) r = None)
   \<and> (JNum Wallet_version \<notin> keyOf Wallet ` set (Wallet_data r)
      \<longrightarrow> Wallet_getObjectForId None r = None \<and> Wallet_getObjectForId (Some JUndefined) r = None)
   \<and> Wallet_getObjectForId (Some JUndefined) r = Wallet_getObjectForId (Some (JNum Wallet_version)) r
   \<and> Wallet_getObjectForId None r = Wallet_getObjectForId (Some (JNum Wallet_version)) r"
proof -
  have g: "snd (realm_write (create c' d False) r) = Inr ()
          \<and> objectForPrimaryKey c' (keyOf c' d) (fst (realm_write (create c' d False) r)) = Some d"
    if "snapshot r = None" "keyType c' (keyOf c' d)" "objectForPrimaryKey c' (keyOf c' d) r = None"
    for c' d
    using create_then_find[OF that(1) keyType_defined[OF that(2)] that(3)] by simp
  have kn: "keyOf Node [(''url'', JStr url), (''custom'', JBool True), (''pow'', pow)] = JStr url"
    by (simp add: keyOf_def getProp_def)
  have acc: "snd (Account_create account r) = Inr ()
          \<and> Account_getObjectForId (JStr name) (fst (Account_create account r)) = Some account"
    if "snapshot r = None" "getProp account ''name'' = JStr name"
      "Account_getObjectForId (JStr name) r = None"
    using g[of Account account] that
    by (simp add: Account_create_def Account_getObjectForId_def keyOf_def)
  have nod: "snd (Node_addCustomNode url pow r) = Inr ()
          \<and> Node_getObjectForId (JStr url) (fst (Node_addCustomNode url pow r))
              = Some [(''url'', JStr url), (''custom'', JBool True), (''pow'', pow)]"
    if "snapshot r = None" "Node_getObjectForId (JStr url) r = None"
    using g[of Node "[(''url'', JStr url), (''custom'', JBool True), (''pow'', pow)]"] that
    by (simp add: kn Node_addCustomNode_def Node_getObjectForId_def)
  have wal: "snd (Wallet_createIfNotExists r) = Inr ()
          \<and> Wallet_getObjectForId (Some (JNum Wallet_version)) (fst (Wallet_createIfNotExists r))
              = Some [(''version'', JNum Wallet_version),
                      (''settings'', JObj [(''notifications'', JObj [])])]"
    if "snapshot r = None" "Wallet_getObjectForId None r = None"
    using createIfNotExists_absent[OF that]
    by (simp add: Wallet_getObjectForId_def freshWallet_def)
  have absent: "objectForPrimaryKey c' k' r = None" if "k' \<notin> keyOf c' ` set (objects c' r)" for c' k'
    using that by (simp add: objectForPrimaryKey_None)
  show ?thesis
    using g[of c data] acc nod wal absent[of k c] absent[of "JStr name" Account]
      absent[of "JStr url" Node] absent[of "JNum n" Wallet] absent[of "JNum Wallet_version" Wallet]
    by (simp add: Account_getObjectForId_def Node_getObjectForId_def Wallet_getObjectForId_def
        Account_data_def Node_data_def Wallet_data_def)
qed

theorem create_then_getById_witness:
  "snapshot emptyRealm = None
   \<and> getProp aliceAccount ''name'' = JStr ''alice''
   \<and> Account_getObjectForId (JStr ''alice'') emptyRealm = None
   \<and> snd (Account_create aliceAccount emptyRealm) = Inr ()
   \<and> Account_getObjectForId (JStr ''alice'') (fst (Account_create aliceAccount emptyRealm))
       = Some aliceAccount
   \<and> Node_getObjectForId (JStr ''n'') (fst (Node_addCustomNode ''n'' (JBool False) emptyRealm))
       = Some [(''url'', JStr ''n''), (''custom'', JBool True), (''pow'', JBool False)]
   \<and> Wallet_getObjectForId (Some (JNum 0)) (fst (Wallet_createIfNotExists emptyRealm))
       = Some [(''version'', JNum 0), (''settings'', JObj [(''notifications'', JObj [])])]
   \<and> JStr ''bob'' \<notin> keyOf Account ` set (Account_data aliceRealm)
   \<and> Account_getObjectForId (JStr ''bob'') aliceRealm = None
   \<and> JNum 7 \<notin> keyOf Wallet ` set (Wallet_data walletRealm)
   \<and> Wallet_getObjectForId (Some (JNum 7)) walletRealm = None
   \<and> Wallet_getObjectForId (Some JUndefined) walletRealm
       = Some [(''version'', JNum 0), (''settings'', JObj [(''notifications'', JObj [])])]
   \<and> Wallet_getObjectForId None emptyRealm = None
   \<and> Wallet_getObjectForId (Some JUndefined) emptyRealm = None"
proof -
  have s: "snapshot emptyRealm = None" by (simp add: emptyRealm_def)
  have n: "getProp aliceAccount ''name'' = JStr ''alice''"
    by (simp add: getProp_def aliceAccount_def)
  have a: "Account_getObjectForId (JStr ''alice'') emptyRealm = None"
    by (simp add: Account_getObjectForId_def objectForPrimaryKey_def objects_def emptyRealm_def)
  have u: "Node_getObjectForId (JStr ''n'') emptyRealm = None"
    by (simp add: Node_getObjectForId_def objectForPrimaryKey_def objects_def emptyRealm_def)
  have w: "Wallet_getObjectForId None emptyRealm = None"
      "JNum Wallet_version \<notin> keyOf Wallet ` set (Wallet_data emptyRealm)"
    by (simp_all add: Wallet_getObjectForId_def objectForPrimaryKey_def Wallet_data_def objects_def
        emptyRealm_def)
  have b: "JStr ''bob'' \<notin> keyOf Account ` set (Account_data aliceRealm)"
    by (simp add: Account_data_def objects_def aliceRealm_def aliceAccount_def keyOf_def getProp_def)
  have k7: "JNum 7 \<notin> keyOf Wallet ` set (Wallet_data walletRealm)"
    by (simp add: Wallet_data_def objects_def walletRealm_def keyOf_def getProp_def)
  have cur: "Wallet_getObjectForId (Some (JNum Wallet_version)) walletRealm
       = Some [(''version'', JNum 0), (''settings'', JObj [(''notifications'', JObj [])])]"
    by (simp add: Wallet_getObjectForId_def objectForPrimaryKey_def objects_def walletRealm_def
        keyOf_def getProp_def Wallet_version_def SCHEMA_VERSION_def)
  show ?thesis
    using create_then_getById_returns_input[of emptyRealm Account aliceAccount aliceAccount
        "''alice''" "''n''" "JBool False" "JStr ''bob''" 7]
      create_then_getById_returns_input[of aliceRealm Account aliceAccount aliceAccount
        "''bob''" "''n''" "JBool False" "JStr ''bob''" 7]
      create_then_getById_returns_input[of walletRealm Account aliceAccount aliceAccount
        "''bob''" "''n''" "JBool False" "JStr ''bob''" 7]
      s n a u w b k7 cur
    by (simp add: Wallet_version_def SCHEMA_VERSION_def)
qed

section \<open>Node.addNodes on an empty list\<close>

text \<open>
  Claim C9. \<^verbatim>\<open>Node.addNodes\<close> on an empty list, or on \<^verbatim>\<open>null\<close> or \<^verbatim>\<open>undefined\<close>, returns
  normally and leaves the whole store as it is. It opens no write scope: it returns
  normally even inside a write transaction, where a non-empty list, whose write scope
  cannot be opened there, raises.
\<close>

theorem addNodes_empty_list_is_noop:
  "Node_addNodes None r = (r, Inr ())
   \<and> Node_addNodes (Some []) r = (r, Inr ())
   \<and> (snapshot r \<noteq> None \<longrightarrow> ns \<noteq> [] \<longrightarrow> Node_addNodes (Some ns) r = (r, Inl AlreadyInTransaction))"
  by (simp add: Node_addNodes_def size_of_def realm_write_def)

theorem addNodes_empty_list_inside_a_transaction:
  "snapshot (beginTransaction emptyRealm) \<noteq> None
   \<and> Node_addNodes (Some []) (beginTransaction emptyRealm) = (beginTransaction emptyRealm, Inr ())
   \<and> Node_addNodes None (beginTransaction emptyRealm) = (beginTransaction emptyRealm, Inr ())
   \<and> Node_addNodes (Some [nodeA]) (beginTransaction emptyRealm)
       = (beginTransaction emptyRealm, Inl AlreadyInTransaction)"
proof -
  have s: "snapshot (beginTransaction emptyRealm) \<noteq> None"
    by (simp add: snapshot_beginTransaction)
  show ?thesis
    using addNodes_empty_list_is_noop[of "beginTransaction emptyRealm" "[nodeA]"] s by simp
qed

section \<open>The wallet setters\<close>

lemma find_map_keeping:
  assumes "\<And>x. P (h x) = P x"
  shows "find P (map h xs) = map_option h (find P xs)"
  by (induction xs) (simp_all add: assms)

lemma keyOf_update_other: "p \<noteq> primaryKey c \<Longrightarrow> keyOf c (AList.update p v row) = keyOf c row"
  by (simp add: keyOf_def getProp_update)

lemma storeField_withData:
  "snapshot s \<noteq> None \<Longrightarrow> storeField Wallet (JNum Wallet_version) p v s = (withData p v s, Inr ())"
  by (simp add: storeField_def withData_def)

lemma objectForPrimaryKey_withData:
  assumes "p \<noteq> ''version''"
  shows "objectForPrimaryKey Wallet k (withData p v r)
           = map_option (\<lambda>row. if keyOf Wallet row = JNum Wallet_version
                                then AList.update p v row else row)
               (objectForPrimaryKey Wallet k r)"
  unfolding objectForPrimaryKey_def withData_def objects_putTable
  using assms by (simp add: find_map_keeping keyOf_update_other)

lemma latestData_withData:
  assumes "p \<noteq> ''version''" "Wallet_latestData r = Some w"
  shows "Wallet_latestData (withData p v r) = Some (AList.update p v w)"
proof -
  have "keyOf Wallet w = JNum Wallet_version"
    using assms(2) by (simp add: Wallet_latestData_def Wallet_getObjectForId_def objectForPrimaryKey_key)
  then show ?thesis
    using assms by (simp add: Wallet_latestData_def Wallet_getObjectForId_def objectForPrimaryKey_withData)
qed

lemma otherRows_withData:
  assumes "p \<noteq> ''version''" "n \<noteq> Wallet_version"
  shows "Wallet_getObjectForId (Some (JNum n)) (withData p v r) = Wallet_getObjectForId (Some (JNum n)) r"
proof (cases "objectForPrimaryKey Wallet (JNum n) r")
  case None
  then show ?thesis
    using assms(1) by (simp add: Wallet_getObjectForId_def objectForPrimaryKey_withData)
next
  case (Some row)
  then have "keyOf Wallet row = JNum n" by (rule objectForPrimaryKey_key)
  then show ?thesis
    using assms Some by (simp add: Wallet_getObjectForId_def objectForPrimaryKey_withData)
qed

lemma keys_withData:
  assumes "p \<noteq> ''version''"
  shows "map (keyOf Wallet) (objects Wallet (withData p v r)) = map (keyOf Wallet) (objects Wallet r)"
  using assms by (simp add: withData_def objects_putTable keyOf_update_other)

lemma withData_twice:
  assumes "p \<noteq> ''version''"
  shows "withData p v (withData p v' r) = withData p v r"
proof -
  have "(\<lambda>row. if keyOf Wallet row = JNum Wallet_version then AList.update p v row else row) \<circ>
        (\<lambda>row. if keyOf Wallet row = JNum Wallet_version then AList.update p v' row else row)
        = (\<lambda>row. if keyOf Wallet row = JNum Wallet_version then AList.update p v row else row)"
    (is "?f \<circ> ?g = ?f")
  proof
    fix row
    show "(?f \<circ> ?g) row = ?f row"
      using assms by (simp add: keyOf_update_other)
  qed
  then show ?thesis
    by (simp add: withData_def objects_putTable putTable_putTable)
qed

lemma commit_withData_begin:
  "snapshot r = None \<Longrightarrow> commitTransaction (withData p v (beginTransaction r)) = withData p v r"
  by (simp add: withData_def commit_putTable_begin objects_beginTransaction)

lemma commit_begin: "snapshot r = None \<Longrightarrow> commitTransaction (beginTransaction r) = r"
  by (simp add: commitTransaction_def beginTransaction_def)

lemma dataFrame_same: "dataFrame p r r"
  by (simp add: dataFrame_def)

lemma dataFrame_withData:
  assumes "p \<noteq> ''version''" "Wallet_latestData r = Some w"
  shows "dataFrame p r (withData p v r)" and "walletField (withData p v r) p = v"
proof -
  have l: "Wallet_latestData (withData p v r) = Some (AList.update p v w)"
    by (rule latestData_withData[OF assms])
  show "walletField (withData p v r) p = v"
    by (simp add: walletField_def l getProp_update)
  have other: "objects c (withData p v r) = objects c r" if "c \<noteq> Wallet" for c
    using that by (simp add: withData_def objects_putTable)
  show "dataFrame p r (withData p v r)"
    unfolding dataFrame_def
    using assms(1) other[of Account] other[of Node]
    by (simp add: Account_data_def Node_data_def Wallet_data_def keys_withData otherRows_withData
        walletField_def l assms(2) getProp_update)
       (simp add: withData_def snapshot_putTable)
qed

lemma latestData_begin: "Wallet_latestData (beginTransaction r) = Wallet_latestData r"
  by (simp add: Wallet_latestData_def Wallet_getObjectForId_def objectForPrimaryKey_begin)

lemma latestSettings_of_data:
  "Wallet_latestData r = Some w \<Longrightarrow> Wallet_latestSettings r = Inr (getProp w ''settings'')"
  by (simp add: Wallet_latestSettings_def Wallet_latestData_def)

lemma latestData_key:
  "Wallet_latestData r = Some w \<Longrightarrow> keyOf Wallet w = JNum Wallet_version"
  by (simp add: Wallet_latestData_def Wallet_getObjectForId_def objectForPrimaryKey_key)

lemma settings_after_withData:
  assumes "Wallet_latestData s = Some w"
  shows "Wallet_latestData (withData ''settings'' x s) = Some (AList.update ''settings'' x w)"
    and "getProp (AList.update ''settings'' x w) ''settings'' = x"
    and "snapshot (withData ''settings'' x s) = snapshot s"
proof -
  show "Wallet_latestData (withData ''settings'' x s) = Some (AList.update ''settings'' x w)"
    using assms by (simp add: latestData_withData)
  show "getProp (AList.update ''settings'' x w) ''settings'' = x"
    by (simp add: getProp_update)
  show "snapshot (withData ''settings'' x s) = snapshot s"
    by (simp add: withData_def snapshot_putTable)
qed

subsection \<open>One assignment inside a write scope\<close>

lemma assignSetting_undeclared:
  assumes "Wallet_latestData s = Some w" "getProp w ''settings'' = JObj st"
    and "map_of (settingsProps sch) p = None"
  shows "assignSetting sch p v s = (s, Inr ())"
  using assms by (simp add: assignSetting_def latestSettings_of_data setObjectProp_def)

lemma assignSetting_refused:
  assumes "Wallet_latestData s = Some w" "getProp w ''settings'' = JObj st"
    and "map_of (settingsProps sch) p = Some t" "\<not> hasType t v"
  shows "assignSetting sch p v s = (s, Inl InvalidValue)"
  using assms by (simp add: assignSetting_def latestSettings_of_data setObjectProp_def)

lemma assignSetting_accepted:
  assumes "snapshot s \<noteq> None" "Wallet_latestData s = Some w" "getProp w ''settings'' = JObj st"
    and "map_of (settingsProps sch) p = Some t" "hasType t v"
  shows "assignSetting sch p v s = (withData ''settings'' (JObj (AList.update p v st)) s, Inr ())"
  using assms
  by (simp add: assignSetting_def latestSettings_of_data setObjectProp_def storeField_withData)

lemma andThen_return: "andThen m (\<lambda>r. (r, Inr ())) = (m :: unit action)"
proof
  fix r
  obtain r' res where eq: "m r = (r', res)" by (cases "m r")
  show "andThen m (\<lambda>r. (r, Inr ())) r = m r"
    using eq by (cases res) (simp_all add: andThen_def)
qed

lemma assignAll1: "assignSetting sch p v = assignAll sch [(p, v)]"
  by (simp add: andThen_return)

lemma assignAll2:
  "andThen (assignSetting sch p1 v1) (assignSetting sch p2 v2) = assignAll sch [(p1, v1), (p2, v2)]"
  by (simp add: andThen_return)

lemma assignAll3:
  "andThen (assignSetting sch p1 v1) (andThen (assignSetting sch p2 v2) (assignSetting sch p3 v3))
     = assignAll sch [(p1, v1), (p2, v2), (p3, v3)]"
  by (simp add: andThen_return)

lemma keepsSnapshot_assignAll: "keepsSnapshot (assignAll sch pvs)"
proof (induction pvs)
  case Nil
  show ?case by (simp add: keepsSnapshot_def)
next
  case (Cons pv pvs)
  then show ?case by (simp add: keepsSnapshot_andThen keepsSnapshot_assignSetting)
qed

subsection \<open>A sequence of assignments inside a write scope\<close>

lemma settingsAfter_Cons:
  "settingsAfter ps (pv # pvs) st
     = (if declared ps (fst pv) then settingsAfter ps pvs (AList.update (fst pv) (snd pv) st)
        else settingsAfter ps pvs st)"
  by (simp add: settingsAfter_def)

lemma settingsAfter_none:
  "filter (\<lambda>pv. declared ps (fst pv)) pvs = [] \<Longrightarrow> settingsAfter ps pvs st = st"
  by (simp add: settingsAfter_def)

lemma assignAll_accepted:
  assumes "snapshot s \<noteq> None" "Wallet_latestData s = Some w" "getProp w ''settings'' = JObj st"
    and "\<not> list_ex (refused (settingsProps sch)) pvs"
  shows "assignAll sch pvs s
           = (if filter (\<lambda>pv. declared (settingsProps sch) (fst pv)) pvs = [] then s
              else withData ''settings'' (JObj (settingsAfter (settingsProps sch) pvs st)) s, Inr ())"
  using assms
proof (induction pvs arbitrary: s w st)
  case Nil
  show ?case by simp
next
  case (Cons pv pvs)
  let ?ps = "settingsProps sch"
  have rest: "\<not> list_ex (refused ?ps) pvs" using Cons.prems(4) by simp
  show ?case
  proof (cases "map_of ?ps (fst pv)")
    case None
    have step: "assignSetting sch (fst pv) (snd pv) s = (s, Inr ())"
      by (rule assignSetting_undeclared[OF Cons.prems(2,3) None])
    have nd: "\<not> declared ?ps (fst pv)" using None by (simp add: declared_def)
    show ?thesis
      using Cons.IH[OF Cons.prems(1,2,3) rest] nd
      by (simp add: andThen_def step settingsAfter_Cons)
  next
    case (Some t)
    have "\<not> refused ?ps pv" using Cons.prems(4) by simp
    then have ok: "hasType t (snd pv)"
      using Some by (simp add: refused_def)
    let ?st1 = "AList.update (fst pv) (snd pv) st"
    let ?s1 = "withData ''settings'' (JObj ?st1) s"
    have step: "assignSetting sch (fst pv) (snd pv) s = (?s1, Inr ())"
      by (rule assignSetting_accepted[OF Cons.prems(1,2,3) Some ok])
    have d: "declared ?ps (fst pv)" using Some by (simp add: declared_def)
    have s1: "snapshot ?s1 \<noteq> None"
      using Cons.prems(1) settings_after_withData(3)[OF Cons.prems(2)] by simp
have l1: "Wallet_latestData ?s1 = Some (AList.update ''settings'' (JObj ?st1) w)"
      by (rule settings_after_withData(1)[OF Cons.prems(2)])
    have g1: "getProp (AList.update ''settings'' (JObj ?st1) w) ''settings'' = JObj ?st1"
      by (simp add: getProp_update)
    have ih: "assignAll sch pvs ?s1
           = (if filter (\<lambda>pv. declared ?ps (fst pv)) pvs = [] then ?s1
              else withData ''settings'' (JObj (settingsAfter ?ps pvs ?st1)) ?s1, Inr ())"
      by (rule Cons.IH[OF s1 l1 g1 rest])
    show ?thesis
      using d by (simp add: andThen_def step ih settingsAfter_Cons withData_twice settingsAfter_none)
  qed
qed

lemma assignAll_refused:
  assumes "snapshot s \<noteq> None" "Wallet_latestData s = Some w" "getProp w ''settings'' = JObj st"
    and "list_ex (refused (settingsProps sch)) pvs"
  shows "\<exists>s'. assignAll sch pvs s = (s', Inl InvalidValue)"
  using assms
proof (induction pvs arbitrary: s w st)
  case Nil
  then show ?case by simp
next
  case (Cons pv pvs)
  let ?ps = "settingsProps sch"
  show ?case
  proof (cases "map_of ?ps (fst pv)")
    case None
    have step: "assignSetting sch (fst pv) (snd pv) s = (s, Inr ())"
      by (rule assignSetting_undeclared[OF Cons.prems(2,3) None])
    have "\<not> refused ?ps pv" using None by (simp add: refused_def)
    then have rest: "list_ex (refused ?ps) pvs"
      using Cons.prems(4) by simp
    show ?thesis
      using Cons.IH[OF Cons.prems(1,2,3) rest] by (simp add: andThen_def step)
  next
    case (Some t)
    show ?thesis
    proof (cases "hasType t (snd pv)")
      case False
      have "assignSetting sch (fst pv) (snd pv) s = (s, Inl InvalidValue)"
        by (rule assignSetting_refused[OF Cons.prems(2,3) Some False])
      then show ?thesis by (simp add: andThen_def)
    next
      case True
      let ?st1 = "AList.update (fst pv) (snd pv) st"
      let ?s1 = "withData ''settings'' (JObj ?st1) s"
      have step: "assignSetting sch (fst pv) (snd pv) s = (?s1, Inr ())"
        by (rule assignSetting_accepted[OF Cons.prems(1,2,3) Some True])
      have "\<not> refused ?ps pv" using Some True by (simp add: refused_def)
      then have rest: "list_ex (refused ?ps) pvs"
        using Cons.prems(4) by simp
      have s1: "snapshot ?s1 \<noteq> None"
        using Cons.prems(1) settings_after_withData(3)[OF Cons.prems(2)] by simp
      have l1: "Wallet_latestData ?s1 = Some (AList.update ''settings'' (JObj ?st1) w)"
        by (rule settings_after_withData(1)[OF Cons.prems(2)])
      have g1: "getProp (AList.update ''settings'' (JObj ?st1) w) ''settings'' = JObj ?st1"
        by (simp add: getProp_update)
      show ?thesis
        using Cons.IH[OF s1 l1 g1 rest] by (simp add: andThen_def step)
    qed
  qed
qed

subsection \<open>The setters of settings\<close>

lemma realm_write_cong:
  "snapshot r = None \<Longrightarrow> f (beginTransaction r) = g (beginTransaction r)
     \<Longrightarrow> realm_write f r = realm_write g r"
  by (simp add: realm_write_def)

lemma write_withData:
  assumes "snapshot r = None"
    and "f (beginTransaction r) = (withData p v (beginTransaction r), Inr ())"
  shows "realm_write f r = (withData p v r, Inr ())"
  using write_commit[where f = f and r = r, OF assms] assms(1) by (simp add: commit_withData_begin)

lemma write_unchanged:
  assumes "snapshot r = None" and "f (beginTransaction r) = (beginTransaction r, Inr ())"
  shows "realm_write f r = (r, Inr ())"
  using write_commit[where f = f and r = r, OF assms] assms(1) by (simp add: commit_begin)

lemma write_raises_at_start:
  assumes "snapshot r = None" "f (beginTransaction r) = (beginTransaction r, Inl e)"
  shows "realm_write f r = (r, Inl e)"
  using assms by (simp add: realm_write_def cancel_restores snapshot_beginTransaction)

lemma write_assignAll_accepted:
  assumes "snapshot r = None" "Wallet_latestData r = Some w" "getProp w ''settings'' = JObj st"
    and "\<not> list_ex (refused (settingsProps sch)) pvs"
  shows "realm_write (assignAll sch pvs) r
           = (if filter (\<lambda>pv. declared (settingsProps sch) (fst pv)) pvs = [] then r
              else withData ''settings'' (JObj (settingsAfter (settingsProps sch) pvs st)) r, Inr ())"
proof -
  let ?b = "beginTransaction r"
  have b: "snapshot ?b \<noteq> None" "Wallet_latestData ?b = Some w"
    using assms(2) by (simp_all add: snapshot_beginTransaction latestData_begin)
  note body = assignAll_accepted[OF b assms(3,4)]
  show ?thesis
  proof (cases "filter (\<lambda>pv. declared (settingsProps sch) (fst pv)) pvs = []")
    case True
    then show ?thesis using write_unchanged[OF assms(1), of "assignAll sch pvs"] body by simp
  next
    case False
    then show ?thesis
      using write_withData[OF assms(1), of "assignAll sch pvs" "''settings''"] body by simp
  qed
qed

lemma write_assignAll_refused:
  assumes "snapshot r = None" "Wallet_latestData r = Some w" "getProp w ''settings'' = JObj st"
    and "list_ex (refused (settingsProps sch)) pvs"
  shows "realm_write (assignAll sch pvs) r = (r, Inl InvalidValue)"
proof -
  let ?b = "beginTransaction r"
  have b: "snapshot ?b \<noteq> None" "Wallet_latestData ?b = Some w"
    using assms(2) by (simp_all add: snapshot_beginTransaction latestData_begin)
  obtain s' where "assignAll sch pvs ?b = (s', Inl InvalidValue)"
    using assignAll_refused[OF b assms(3,4)] by blast
  then show ?thesis
    by (rule write_rollback[OF keepsSnapshot_assignAll assms(1)])
qed

lemma foldl_update_other:
  "q \<notin> fst ` set xs \<Longrightarrow>
     getProp (foldl (\<lambda>acc pv. AList.update (fst pv) (snd pv) acc) st xs) q = getProp st q"
  by (induction xs arbitrary: st) (simp_all add: getProp_update)

lemma foldl_update_written:
  "distinct (map fst xs) \<Longrightarrow> (p, v) \<in> set xs \<Longrightarrow>
     getProp (foldl (\<lambda>acc pv. AList.update (fst pv) (snd pv) acc) st xs) p = v"
proof (induction xs arbitrary: st)
  case Nil
  then show ?case by simp
next
  case (Cons x xs)
  show ?case
  proof (cases "x = (p, v)")
    case True
    have "p \<notin> fst ` set xs" using Cons.prems(1) True by auto
    then show ?thesis using True by (simp add: foldl_update_other getProp_update)
  next
    case False
    then show ?thesis using Cons by simp
  qed
qed

lemma settingsField_withData:
  assumes "Wallet_latestData r = Some w"
  shows "settingsField (withData ''settings'' (JObj st') r) q = getProp st' q"
  using dataFrame_withData(2)[of "''settings''" r w "JObj st'"] assms
  by (simp add: settingsField_def)

lemma settingsField_current:
  assumes "Wallet_latestData r = Some w" "getProp w ''settings'' = JObj st"
  shows "settingsField r q = getProp st q"
  using assms by (simp add: settingsField_def walletField_def)

lemma setsSettings_withData:
  assumes "Wallet_latestData r = Some w" "getProp w ''settings'' = JObj st"
    and "\<And>q. q \<notin> fst ` set pvs \<Longrightarrow> getProp st' q = getProp st q"
    and "\<And>p v. (p, v) \<in> set pvs \<Longrightarrow> getProp st' p = v"
  shows "setsSettings pvs r (withData ''settings'' (JObj st') r, Inr ())"
  unfolding setsSettings_def
  using dataFrame_withData(1)[of "''settings''" r w "JObj st'"] assms
  by (auto simp: settingsField_withData settingsField_current)

lemma setsSettings_nothing: "setsSettings [] r (r, Inr ())"
  by (simp add: setsSettings_def dataFrame_same)

lemma settingsOutcome_assignAll:
  assumes "snapshot r = None" "Wallet_latestData r = Some w" "getProp w ''settings'' = JObj st"
    and "distinct (map fst pvs)"
  shows "settingsOutcome sch pvs r (realm_write (assignAll sch pvs) r)"
proof (cases "list_ex (refused (settingsProps sch)) pvs")
  case True
  then show ?thesis
    using write_assignAll_refused[OF assms(1-3) True] by (simp add: settingsOutcome_def)
next
  case False
  let ?d = "filter (\<lambda>pv. declared (settingsProps sch) (fst pv)) pvs"
  have dd: "distinct (map fst ?d)" using assms(4) by (simp add: distinct_map_filter)
  show ?thesis
  proof (cases "?d = []")
    case True
    then show ?thesis
      using write_assignAll_accepted[OF assms(1-3) False] False
      by (simp add: settingsOutcome_def setsSettings_nothing)
  next
    case nonempty: False
    have "setsSettings ?d r
            (withData ''settings'' (JObj (settingsAfter (settingsProps sch) pvs st)) r, Inr ())"
    proof (rule setsSettings_withData[OF assms(2,3)])
      show "getProp (settingsAfter (settingsProps sch) pvs st) q = getProp st q"
        if "q \<notin> fst ` set ?d" for q
        unfolding settingsAfter_def by (rule foldl_update_other[OF that])
      show "getProp (settingsAfter (settingsProps sch) pvs st) p = v"
        if "(p, v) \<in> set ?d" for p v
        unfolding settingsAfter_def by (rule foldl_update_written[OF dd that])
    qed
    then show ?thesis
      using write_assignAll_accepted[OF assms(1-3) False] False nonempty
      by (simp add: settingsOutcome_def)
  qed
qed

lemma settingsOutcome1:
  assumes "snapshot r = None" "Wallet_latestData r = Some w" "getProp w ''settings'' = JObj st"
  shows "settingsOutcome sch [(p, v)] r (realm_write (assignSetting sch p v) r)"
  unfolding assignAll1 by (rule settingsOutcome_assignAll[OF assms]) simp

lemma settingsOutcome2:
  assumes "snapshot r = None" "Wallet_latestData r = Some w" "getProp w ''settings'' = JObj st"
    and "p1 \<noteq> p2"
  shows "settingsOutcome sch [(p1, v1), (p2, v2)] r
           (realm_write (andThen (assignSetting sch p1 v1) (assignSetting sch p2 v2)) r)"
  unfolding assignAll2 by (rule settingsOutcome_assignAll[OF assms(1-3)]) (use assms(4) in simp)

lemma settingsOutcome3:
  assumes "snapshot r = None" "Wallet_latestData r = Some w" "getProp w ''settings'' = JObj st"
    and "p1 \<noteq> p2" "p1 \<noteq> p3" "p2 \<noteq> p3"
  shows "settingsOutcome sch [(p1, v1), (p2, v2), (p3, v3)] r
           (realm_write (andThen (assignSetting sch p1 v1)
                            (andThen (assignSetting sch p2 v2) (assignSetting sch p3 v3))) r)"
  unfolding assignAll3 by (rule settingsOutcome_assignAll[OF assms(1-3)]) (use assms(4-6) in simp)

lemma toggle_outcome:
  assumes "snapshot r = None" "Wallet_latestData r = Some w" "getProp w ''settings'' = JObj st"
  shows "settingsOutcome sch
           [(''hideEmptyTransactions'',
             JBool (\<not> truthy (case map_of st ''hideEmptyTransactions'' of
                                 None \<Rightarrow> dflt | Some v \<Rightarrow> v)))] r
           (Wallet_toggleEmptyTransactionsDisplay sch dflt r)"
proof -
  let ?v = "JBool (\<not> truthy (case map_of st ''hideEmptyTransactions'' of None \<Rightarrow> dflt | Some v \<Rightarrow> v))"
  let ?b = "beginTransaction r"
  have ls: "Wallet_latestSettings ?b = Inr (JObj st)"
    using assms(2,3) by (simp add: latestSettings_of_data latestData_begin)
  have "Wallet_toggleEmptyTransactionsDisplay sch dflt r
          = realm_write (assignSetting sch ''hideEmptyTransactions'' ?v) r"
    unfolding Wallet_toggleEmptyTransactionsDisplay_def
    by (rule realm_write_cong[OF assms(1)]) (simp add: ls js_not_def)
  then show ?thesis
    using settingsOutcome1[OF assms, of sch "''hideEmptyTransactions''" ?v] by simp
qed

subsection \<open>The setters of wallet data\<close>

lemma dataOutcome1:
  assumes "snapshot r = None" "Wallet_latestData r = Some w" "p \<noteq> ''version''"
  shows "dataOutcome sch p v r (realm_write (assignData sch p v) r)"
proof -
  let ?b = "beginTransaction r"
  have b: "snapshot ?b \<noteq> None" "Wallet_latestData ?b = Some w"
    using assms(2) by (simp_all add: snapshot_beginTransaction latestData_begin)
  show ?thesis
  proof (cases "map_of (walletProps sch) p")
    case None
    have "assignData sch p v ?b = (?b, Inr ())"
      using None by (simp add: assignData_def b(2) setObjectProp_def)
    then show ?thesis
      using write_unchanged[OF assms(1)] None by (simp add: dataOutcome_def)
  next
    case (Some t)
    show ?thesis
    proof (cases "hasType t v")
      case False
      have "assignData sch p v ?b = (?b, Inl InvalidValue)"
        using Some False by (simp add: assignData_def b(2) setObjectProp_def)
      then show ?thesis
        using write_raises_at_start[OF assms(1)] Some False by (simp add: dataOutcome_def)
    next
      case True
      have "assignData sch p v ?b = (withData p v ?b, Inr ())"
        using Some True b(1)
        by (simp add: assignData_def b(2) setObjectProp_def latestData_key[OF b(2)]
            storeField_withData)
      then have "realm_write (assignData sch p v) r = (withData p v r, Inr ())"
        by (rule write_withData[OF assms(1)])
      then show ?thesis
        using Some True dataFrame_withData[OF assms(3,2), of v]
        by (simp add: dataOutcome_def setsData_def)
    qed
  qed
qed

lemma updateErrorLog_appends:
  assumes "snapshot r = None" "Wallet_latestData r = Some w"
    and "map_of (walletProps sch) ''errorLog'' = Some (TList t)" "hasType t (JStr payload)"
    and "errorLogOf w = Some log"
  shows "setsData ''errorLog'' (JArr (log @ [JStr payload])) r (Wallet_updateErrorLog sch payload r)"
proof -
  let ?b = "beginTransaction r"
  have b: "snapshot ?b \<noteq> None" "Wallet_latestData ?b = Some w"
    using assms(2) by (simp_all add: snapshot_beginTransaction latestData_begin)
  have body: "pushErrorLog sch (JStr payload) ?b
                = (withData ''errorLog'' (JArr (log @ [JStr payload])) ?b, Inr ())"
    using b(1) assms(3,4,5)
    by (simp add: pushErrorLog_def b(2) latestData_key[OF b(2)] storeField_withData)
  have "Wallet_updateErrorLog sch payload r
          = (withData ''errorLog'' (JArr (log @ [JStr payload])) r, Inr ())"
    unfolding Wallet_updateErrorLog_def
    by (rule write_withData[OF assms(1)]) (rule body)
  then show ?thesis
    using dataFrame_withData[of "''errorLog''" r w "JArr (log @ [JStr payload])"] assms(2)
    by (simp add: setsData_def)
qed

lemma updateErrorLog_refused:
  assumes "snapshot r = None" "Wallet_latestData r = Some w"
    and "map_of (walletProps sch) ''errorLog'' = Some (TList t)" "\<not> hasType t (JStr payload)"
  shows "Wallet_updateErrorLog sch payload r = (r, Inl InvalidValue)"
  unfolding Wallet_updateErrorLog_def
  using assms(2,3,4)
  by (intro write_raises_at_start[OF assms(1)]) (simp add: pushErrorLog_def latestData_begin)

subsection \<open>The setter of a notification entry\<close>

lemma notification_outcome:
  assumes "snapshot r = None" "Wallet_latestData r = Some w" "getProp w ''settings'' = JObj st"
    and "getProp st ''notifications'' = JObj nt"
  shows "notificationOutcome sch type enabled nt r
           (Wallet_updateNotificationsSetting sch type enabled r)"
proof -
  let ?st' = "AList.update ''notifications'' (JObj (AList.update type enabled nt)) st"
  let ?b = "beginTransaction r"
  have b: "snapshot ?b \<noteq> None" "Wallet_latestData ?b = Some w"
    using assms(2) by (simp_all add: snapshot_beginTransaction latestData_begin)
  have ls: "Wallet_latestSettings ?b = Inr (JObj st)"
    using b(2) assms(3) by (simp add: latestSettings_of_data)
  show ?thesis
  proof (cases "map_of (notificationsProps sch) type")
    case None
    have "assignNotification sch type enabled ?b = (?b, Inr ())"
      using None by (simp add: assignNotification_def ls assms(4) setObjectProp_def)
    then show ?thesis
      using write_unchanged[OF assms(1)] None
      by (simp add: notificationOutcome_def Wallet_updateNotificationsSetting_def)
  next
    case (Some t)
    show ?thesis
    proof (cases "hasType t enabled")
      case False
      have "assignNotification sch type enabled ?b = (?b, Inl InvalidValue)"
        using Some False by (simp add: assignNotification_def ls assms(4) setObjectProp_def)
      then show ?thesis
        using write_raises_at_start[OF assms(1)] Some False
        by (simp add: notificationOutcome_def Wallet_updateNotificationsSetting_def)
    next
      case True
      have "assignNotification sch type enabled ?b = (withData ''settings'' (JObj ?st') ?b, Inr ())"
        using Some True b(1)
        by (simp add: assignNotification_def ls assms(4) setObjectProp_def storeField_withData)
      then have "Wallet_updateNotificationsSetting sch type enabled r
                   = (withData ''settings'' (JObj ?st') r, Inr ())"
        unfolding Wallet_updateNotificationsSetting_def by (rule write_withData[OF assms(1)])
      moreover have "setsSettings [(''notifications'', JObj (AList.update type enabled nt))] r
                       (withData ''settings'' (JObj ?st') r, Inr ())"
        by (rule setsSettings_withData[OF assms(2,3)]) (simp_all add: getProp_update)
      ultimately show ?thesis
        using Some True by (simp add: notificationOutcome_def)
    qed
  qed
qed

subsection \<open>Every setter\<close>

text \<open>
  Claim C8, as the code has it. With the wallet row of the current version stored, its
  settings an object, and outside a write scope, every setter of \<^verbatim>\<open>Wallet\<close> assigns its own
  field and nothing else (the setters for the currency data, the random node and the
  versions assign their two or three fields). The setter checks nothing itself; the value
  passes to a typed property of Realm. A value of the type the schema declares is stored
  as it is given, and the other settings, the other fields of the wallet row, the wallet
  rows of other versions, the accounts and the nodes are as before. A value that is not
  of the declared type is refused: the setter raises and the store is unchanged. A field
  that the schema does not declare, such as an unknown notification, is not stored. The
  toggle stores the negation of the current value and the error log setter appends its
  message to the stored log.
\<close>

theorem wallet_setters_write_only_their_field:
  assumes "snapshot r = None"
    and "Wallet_latestData r = Some w"
    and "getProp w ''settings'' = JObj st"
  shows "dataOutcome sch ''onboardingComplete'' (JBool True) r (Wallet_setOnboardingComplete sch r)
       \<and> settingsOutcome sch [(''remotePoW'', JBool remotePoW)] r
            (Wallet_updateRemotePowSetting sch remotePoW r)
       \<and> settingsOutcome sch [(''autoPromotion'', JBool autoPromotion)] r
            (Wallet_updateAutoPromotionSetting sch autoPromotion r)
       \<and> settingsOutcome sch [(''autoNodeSwitching'', JBool autoNodeSwitching)] r
            (Wallet_updateAutoNodeSwitchingSetting sch autoNodeSwitching r)
       \<and> settingsOutcome sch [(''lockScreenTimeout'', JNum timeout)] r
            (Wallet_updateLockScreenTimeout sch timeout r)
       \<and> settingsOutcome sch [(''locale'', JStr loc)] r (Wallet_updateLocale sch loc r)
       \<and> settingsOutcome sch [(''mode'', JStr mode)] r (Wallet_updateMode sch mode r)
       \<and> settingsOutcome sch [(''node'', JStr node)] r (Wallet_updateNode sch node r)
       \<and> settingsOutcome sch [(''language'', JStr language)] r (Wallet_updateLanguage sch language r)
       \<and> settingsOutcome sch
            [(''currency'', getProp currencyData ''currency''),
             (''conversionRate'', getProp currencyData ''conversionRate''),
             (''availableCurrencies'', getProp currencyData ''availableCurrencies'')] r
            (Wallet_updateCurrencyData sch currencyData r)
       \<and> settingsOutcome sch [(''themeName'', JStr theme)] r (Wallet_updateTheme sch theme r)
       \<and> settingsOutcome sch [(''node'', JStr randomNode), (''hasRandomizedNode'', JBool True)] r
            (Wallet_setRandomlySelectedNode sch randomNode r)
       \<and> settingsOutcome sch [(''is2FAEnabled'', JBool twoFA)] r (Wallet_update2FASetting sch twoFA r)
       \<and> settingsOutcome sch [(''isFingerprintEnabled'', JBool fingerprint)] r
            (Wallet_updateFingerPrintAuthenticationSetting sch fingerprint r)
       \<and> settingsOutcome sch
            [(''buildNumber'', getProp versions ''buildNumber''),
             (''version'', getProp versions ''version'')] r
            (Wallet_setVersions sch versions r)
       \<and> settingsOutcome sch [(''acceptedTerms'', JBool True)] r (Wallet_acceptTerms sch r)
       \<and> settingsOutcome sch [(''acceptedPrivacy'', JBool True)] r (Wallet_acceptPrivacyPolicy sch r)
       \<and> settingsOutcome sch
            [(''hideEmptyTransactions'',
              JBool (\<not> truthy (case map_of st ''hideEmptyTransactions'' of
                                  None \<Rightarrow> dflt | Some v \<Rightarrow> v)))] r
            (Wallet_toggleEmptyTransactionsDisplay sch dflt r)
       \<and> (map_of st ''hideEmptyTransactions'' = Some (JBool hidden) \<longrightarrow>
            settingsOutcome sch [(''hideEmptyTransactions'', JBool (\<not> hidden))] r
              (Wallet_toggleEmptyTransactionsDisplay sch dflt r))
       \<and> settingsOutcome sch [(''completedForcedPasswordUpdate'', JBool True)] r
            (Wallet_completeForcedPasswordUpdate sch r)
       \<and> settingsOutcome sch [(''completedByteTritSweep'', JBool sweep)] r
            (Wallet_updateByteTritSweepSetting sch sweep r)
       \<and> settingsOutcome sch [(''isTrayEnabled'', JBool tray)] r (Wallet_updateTraySetting sch tray r)
       \<and> (getProp st ''notifications'' = JObj nt \<longrightarrow>
            notificationOutcome sch type enabled nt r
              (Wallet_updateNotificationsSetting sch type enabled r))
       \<and> (map_of (walletProps sch) ''errorLog'' = Some (TList t) \<longrightarrow> hasType t (JStr message) \<longrightarrow>
            map_of w ''errorLog'' = Some (JArr log) \<longrightarrow>
            setsData ''errorLog'' (JArr (log @ [JStr message])) r
              (Wallet_updateErrorLog sch message r))
       \<and> (map_of (walletProps sch) ''errorLog'' = Some (TList t) \<longrightarrow> hasType t (JStr message) \<longrightarrow>
            map_of w ''errorLog'' = None \<longrightarrow>
            setsData ''errorLog'' (JArr [JStr message]) r (Wallet_updateErrorLog sch message r))
       \<and> (map_of (walletProps sch) ''errorLog'' = Some (TList t) \<longrightarrow> \<not> hasType t (JStr message) \<longrightarrow>
            Wallet_updateErrorLog sch message r = (r, Inl InvalidValue))
       \<and> dataOutcome sch ''errorLog'' (JArr []) r (Wallet_clearErrorLog sch r)"
proof -
  note one = settingsOutcome1[OF assms]
  note two = settingsOutcome2[OF assms]
  note three = settingsOutcome3[OF assms]
  note dat = dataOutcome1[OF assms(1,2)]
  have tog: "settingsOutcome sch [(''hideEmptyTransactions'', JBool (\<not> hidden))] r
               (Wallet_toggleEmptyTransactionsDisplay sch dflt r)"
    if "map_of st ''hideEmptyTransactions'' = Some (JBool hidden)"
    using toggle_outcome[OF assms, of sch dflt] that by simp
  have app: "setsData ''errorLog'' (JArr (log @ [JStr message])) r (Wallet_updateErrorLog sch message r)"
    if "map_of (walletProps sch) ''errorLog'' = Some (TList t)" "hasType t (JStr message)"
      "map_of w ''errorLog'' = Some (JArr log)"
    using updateErrorLog_appends[OF assms(1,2) that(1,2), of log] that(3)
    by (simp add: errorLogOf_def)
  have new: "setsData ''errorLog'' (JArr [JStr message]) r (Wallet_updateErrorLog sch message r)"
    if "map_of (walletProps sch) ''errorLog'' = Some (TList t)" "hasType t (JStr message)"
      "map_of w ''errorLog'' = None"
    using updateErrorLog_appends[OF assms(1,2) that(1,2), of "[]"] that(3)
    by (simp add: errorLogOf_def)
  show ?thesis
    unfolding Wallet_setOnboardingComplete_def Wallet_updateRemotePowSetting_def
      Wallet_updateAutoPromotionSetting_def Wallet_updateAutoNodeSwitchingSetting_def
      Wallet_updateLockScreenTimeout_def Wallet_updateLocale_def Wallet_updateMode_def
      Wallet_updateNode_def Wallet_updateLanguage_def Wallet_updateCurrencyData_def
      Wallet_updateTheme_def Wallet_setRandomlySelectedNode_def Wallet_update2FASetting_def
      Wallet_updateFingerPrintAuthenticationSetting_def Wallet_setVersions_def
      Wallet_acceptTerms_def Wallet_acceptPrivacyPolicy_def
      Wallet_completeForcedPasswordUpdate_def Wallet_updateByteTritSweepSetting_def
      Wallet_updateTraySetting_def Wallet_clearErrorLog_def Let_def
    by (intro conjI impI one two three dat toggle_outcome[OF assms] tog app new
        notification_outcome[OF assms] updateErrorLog_refused[OF assms(1,2)]) simp_all
qed

theorem wallet_setters_on_used_wallet:
  "snapshot usedRealm = None
   \<and> Wallet_latestData usedRealm = Some usedWallet
   \<and> snd (Wallet_updateLocale exampleSchema ''en'' usedRealm) = Inr ()
   \<and> settingsField (fst (Wallet_updateLocale exampleSchema ''en'' usedRealm)) ''locale'' = JStr ''en''
   \<and> settingsField (fst (Wallet_updateLocale exampleSchema ''en'' usedRealm)) ''hideEmptyTransactions''
       = JBool True
   \<and> Account_data (fst (Wallet_updateLocale exampleSchema ''en'' usedRealm)) = [aliceAccount]
   \<and> Node_data (fst (Wallet_updateLocale exampleSchema ''en'' usedRealm)) = [storedA]
   \<and> walletField (fst (Wallet_updateLocale exampleSchema ''en'' usedRealm)) ''errorLog''
       = JArr [JStr ''boom'']
   \<and> Wallet_updateLockScreenTimeout exampleSchema (2 ^ 63) usedRealm = (usedRealm, Inl InvalidValue)
   \<and> settingsField (fst (Wallet_updateLockScreenTimeout exampleSchema 300 usedRealm))
        ''lockScreenTimeout'' = JNum 300
   \<and> settingsField (fst (Wallet_toggleEmptyTransactionsDisplay exampleSchema (JBool False) usedRealm))
        ''hideEmptyTransactions'' = JBool False
   \<and> walletField (fst (Wallet_updateErrorLog exampleSchema ''again'' usedRealm)) ''errorLog''
       = JArr [JStr ''boom'', JStr ''again'']
   \<and> settingsField (fst (Wallet_updateNotificationsSetting exampleSchema ''general'' (JBool True)
                            usedRealm)) ''notifications''
       = JObj [(''general'', JBool True)]"
proof -
  let ?st = "[(''notifications'', JObj [(''general'', JBool False)]),
              (''hideEmptyTransactions'', JBool True)]"
  have s: "snapshot usedRealm = None" by (simp add: usedRealm_def)
  have d: "Wallet_latestData usedRealm = Some usedWallet"
    by (simp add: Wallet_latestData_def Wallet_getObjectForId_def objectForPrimaryKey_def
        objects_def keyOf_def getProp_def usedRealm_def usedWallet_def Wallet_version_def
        SCHEMA_VERSION_def)
  have g: "getProp usedWallet ''settings'' = JObj ?st"
    by (simp add: getProp_def usedWallet_def)
  have cur: "settingsField usedRealm ''hideEmptyTransactions'' = JBool True"
      "walletField usedRealm ''errorLog'' = JArr [JStr ''boom'']"
    by (simp_all add: settingsField_def walletField_def d getProp_def usedWallet_def)
  have a: "Account_data usedRealm = [aliceAccount]" "Node_data usedRealm = [storedA]"
    by (simp_all add: Account_data_def Node_data_def objects_def usedRealm_def)
  have m: "map_of ?st ''hideEmptyTransactions'' = Some (JBool True)"
      "getProp ?st ''notifications'' = JObj [(''general'', JBool False)]"
      "map_of usedWallet ''errorLog'' = Some (JArr [JStr ''boom''])"
    by (simp_all add: getProp_def usedWallet_def)
  have t: "map_of (walletProps exampleSchema) ''errorLog'' = Some (TList TString)"
      "map_of (settingsProps exampleSchema) ''locale'' = Some TString"
      "map_of (settingsProps exampleSchema) ''lockScreenTimeout'' = Some TInt"
      "map_of (settingsProps exampleSchema) ''hideEmptyTransactions'' = Some TBool"
      "map_of (notificationsProps exampleSchema) ''general'' = Some TBool"
    by (simp_all add: exampleSchema_def)
  note big = wallet_setters_write_only_their_field[OF s d g, where sch = exampleSchema
      and loc = "''en''" and dflt = "JBool False" and hidden = True and t = TString
      and message = "''again''" and log = "[JStr ''boom'']" and type = "''general''"
      and enabled = "JBool True" and nt = "[(''general'', JBool False)]"]
  show ?thesis
    using big[where timeout = "2 ^ 63"] big[where timeout = 300] s d cur a m t
    by (simp add: settingsOutcome_def dataOutcome_def notificationOutcome_def refused_def
        declared_def setsSettings_def setsData_def dataFrame_def)
qed

text \<open>
  The claim as stated fails, here under the example schema and with a fresh wallet row:
  a lock screen timeout outside the 64-bit integers and currency data without the list of
  available currencies are refused, the setter raises and nothing is stored; a
  notification that the schema does not declare is not stored either.
\<close>

theorem wallet_setters_value_not_applied_counterexample:
  "Wallet_updateLockScreenTimeout exampleSchema (2 ^ 63) walletRealm = (walletRealm, Inl InvalidValue)
   \<and> Wallet_updateCurrencyData exampleSchema
        [(''currency'', JStr ''USD''), (''conversionRate'', JNum 1)] walletRealm
       = (walletRealm, Inl InvalidValue)
   \<and> Wallet_updateNotificationsSetting exampleSchema ''bogus'' (JBool True) walletRealm
       = (walletRealm, Inr ())"
  by code_simp

section \<open>The wallet setters without a wallet row\<close>

lemma absent_begin:
  "Wallet_getObjectForId None r = None \<Longrightarrow> Wallet_getObjectForId None (beginTransaction r) = None"
  by (simp add: Wallet_getObjectForId_def objectForPrimaryKey_begin)

lemma assignSetting_absent:
  "Wallet_getObjectForId None s = None \<Longrightarrow> assignSetting sch p v s = (s, Inl TypeError)"
  by (simp add: assignSetting_def Wallet_latestSettings_def)

lemma assignData_absent:
  "Wallet_getObjectForId None s = None \<Longrightarrow> assignData sch p v s = (s, Inl TypeError)"
  by (simp add: assignData_def Wallet_latestData_def)

lemma assignNotification_absent:
  "Wallet_getObjectForId None s = None \<Longrightarrow> assignNotification sch t v s = (s, Inl TypeError)"
  by (simp add: assignNotification_def Wallet_latestSettings_def)

lemma pushErrorLog_absent:
  "Wallet_getObjectForId None s = None \<Longrightarrow> pushErrorLog sch v s = (s, Inl TypeError)"
  by (simp add: pushErrorLog_def Wallet_latestData_def)

lemma andThen_raises: "m s = (s, Inl e) \<Longrightarrow> andThen m n s = (s, Inl e)"
  by (simp add: andThen_def)

lemma write_setting_absent:
  assumes "snapshot r = None" "Wallet_getObjectForId None r = None"
  shows "realm_write (assignSetting sch p v) r = (r, Inl TypeError)"
    and "realm_write (andThen (assignSetting sch p v) n) r = (r, Inl TypeError)"
    and "realm_write (assignData sch p v) r = (r, Inl TypeError)"
    and "realm_write (assignNotification sch t v) r = (r, Inl TypeError)"
    and "realm_write (pushErrorLog sch v) r = (r, Inl TypeError)"
  using assms absent_begin[OF assms(2)]
  by (simp_all add: write_raises_at_start assignSetting_absent assignData_absent
      assignNotification_absent pushErrorLog_absent andThen_raises)

lemma toggle_absent:
  assumes "snapshot r = None" "Wallet_getObjectForId None r = None"
  shows "Wallet_toggleEmptyTransactionsDisplay sch dflt r = (r, Inl TypeError)"
  unfolding Wallet_toggleEmptyTransactionsDisplay_def
  using absent_begin[OF assms(2)]
  by (intro write_raises_at_start[OF assms(1)]) (simp add: Wallet_latestSettings_def)

text \<open>
  Claim C10. Without a wallet row of the current version, outside a write scope, the
  accessor \<^verbatim>\<open>latestSettings\<close> and every setter raise the TypeError of reading or writing a
  property of \<^verbatim>\<open>undefined\<close>; no row is created and the store is left as it was. This is so
  whatever the schema declares.
\<close>

theorem wallet_setters_raise_without_wallet_row:
  assumes "snapshot r = None"
    and "Wallet_getObjectForId None r = None"
  shows "Wallet_latestSettings r = Inl TypeError
       \<and> Wallet_setOnboardingComplete sch r = (r, Inl TypeError)
       \<and> Wallet_updateRemotePowSetting sch remotePoW r = (r, Inl TypeError)
       \<and> Wallet_updateAutoPromotionSetting sch autoPromotion r = (r, Inl TypeError)
       \<and> Wallet_updateAutoNodeSwitchingSetting sch autoNodeSwitching r = (r, Inl TypeError)
       \<and> Wallet_updateLockScreenTimeout sch timeout r = (r, Inl TypeError)
       \<and> Wallet_updateLocale sch locale r = (r, Inl TypeError)
       \<and> Wallet_updateMode sch mode r = (r, Inl TypeError)
       \<and> Wallet_updateNode sch node r = (r, Inl TypeError)
       \<and> Wallet_updateLanguage sch language r = (r, Inl TypeError)
       \<and> Wallet_updateCurrencyData sch currencyData r = (r, Inl TypeError)
       \<and> Wallet_updateTheme sch theme r = (r, Inl TypeError)
       \<and> Wallet_setRandomlySelectedNode sch randomNode r = (r, Inl TypeError)
       \<and> Wallet_update2FASetting sch twoFA r = (r, Inl TypeError)
       \<and> Wallet_updateFingerPrintAuthenticationSetting sch fingerprint r = (r, Inl TypeError)
       \<and> Wallet_setVersions sch versions r = (r, Inl TypeError)
       \<and> Wallet_acceptTerms sch r = (r, Inl TypeError)
       \<and> Wallet_acceptPrivacyPolicy sch r = (r, Inl TypeError)
       \<and> Wallet_toggleEmptyTransactionsDisplay sch dflt r = (r, Inl TypeError)
       \<and> Wallet_completeForcedPasswordUpdate sch r = (r, Inl TypeError)
       \<and> Wallet_updateByteTritSweepSetting sch sweep r = (r, Inl TypeError)
       \<and> Wallet_updateTraySetting sch tray r = (r, Inl TypeError)
       \<and> Wallet_updateNotificationsSetting sch type enabled r = (r, Inl TypeError)
       \<and> Wallet_updateErrorLog sch message r = (r, Inl TypeError)
       \<and> Wallet_clearErrorLog sch r = (r, Inl TypeError)"
proof -
  have ls: "Wallet_latestSettings r = Inl TypeError"
    using assms(2) by (simp add: Wallet_latestSettings_def)
  show ?thesis
    unfolding Wallet_setOnboardingComplete_def Wallet_updateRemotePowSetting_def
      Wallet_updateAutoPromotionSetting_def Wallet_updateAutoNodeSwitchingSetting_def
      Wallet_updateLockScreenTimeout_def Wallet_updateLocale_def Wallet_updateMode_def
      Wallet_updateNode_def Wallet_updateLanguage_def Wallet_updateCurrencyData_def
      Wallet_updateTheme_def Wallet_setRandomlySelectedNode_def Wallet_update2FASetting_def
      Wallet_updateFingerPrintAuthenticationSetting_def Wallet_setVersions_def
      Wallet_acceptTerms_def Wallet_acceptPrivacyPolicy_def
      Wallet_completeForcedPasswordUpdate_def Wallet_updateByteTritSweepSetting_def
      Wallet_updateTraySetting_def Wallet_clearErrorLog_def Wallet_updateNotificationsSetting_def
      Wallet_updateErrorLog_def Let_def
    by (intro conjI ls write_setting_absent[OF assms] toggle_absent[OF assms])
qed

theorem wallet_setters_on_empty_store:
  "snapshot emptyRealm = None
   \<and> Wallet_getObjectForId None emptyRealm = None
   \<and> Wallet_latestSettings emptyRealm = Inl TypeError
   \<and> Wallet_updateLocale exampleSchema ''en'' emptyRealm = (emptyRealm, Inl TypeError)
   \<and> Wallet_updateTheme exampleSchema ''Dark'' emptyRealm = (emptyRealm, Inl TypeError)
   \<and> Wallet_clearErrorLog exampleSchema emptyRealm = (emptyRealm, Inl TypeError)
   \<and> Wallet_data (fst (Wallet_updateLocale exampleSchema ''en'' emptyRealm)) = []"
proof -
  have s: "snapshot emptyRealm = None" by (simp add: emptyRealm_def)
  have g: "Wallet_getObjectForId None emptyRealm = None"
    by (simp add: Wallet_getObjectForId_def objectForPrimaryKey_def objects_def emptyRealm_def)
  have w: "Wallet_data emptyRealm = []"
    by (simp add: Wallet_data_def objects_def emptyRealm_def)
  show ?thesis
    using wallet_setters_raise_without_wallet_row[OF s g,
        of exampleSchema _ _ _ _ "''en''" _ _ _ _ "''Dark''"] s g w
    by simp
qed

end
